theory Spec2Isabelle
  imports Main
begin

section \<open>The cart items component (assets/component-cart-items.js)\<close>

text \<open>
  The component is event-driven glue over the browser DOM, a cart endpoint and the
  theme's helper modules. The embedding keeps the DOM state the component reads and
  writes as a record, passes it explicitly through every method, and records each call
  into an external collaborator (fetch, morphSection, dispatchEvent, console.error,
  shimmer, cartPerformance) as an entry of an effect log, in program order.
  A method that can throw returns \<open>Threw e s\<close> with the state reached at the throw.
\<close>

subsection \<open>JavaScript values and helpers\<close>

datatype error =
    Error string          \<comment> \<open>\<open>new Error(message)\<close>\<close>
  | TypeError string      \<comment> \<open>property read on \<open>undefined\<close>\<close>
  | SyntaxError           \<comment> \<open>\<open>JSON.parse\<close> on text that is not JSON\<close>
  | Rejection string      \<comment> \<open>rejection reason of \<open>fetch\<close> or \<open>response.text()\<close>\<close>

text \<open>Truthiness of a number that may be absent (\<open>undefined\<close>), and of a string that may be absent.\<close>

definition truthy_number :: "int option \<Rightarrow> bool" where
  "truthy_number v = (case v of None \<Rightarrow> False | Some n \<Rightarrow> n \<noteq> 0)"

definition truthy_string :: "string option \<Rightarrow> bool" where
  "truthy_string v = (case v of None \<Rightarrow> False | Some t \<Rightarrow> t \<noteq> [])"

text \<open>\<open>xs[i]\<close> on an array: \<open>undefined\<close> outside \<open>0 .. length - 1\<close>.\<close>

definition js_index :: "'a list \<Rightarrow> int \<Rightarrow> 'a option" where
  "js_index xs i = (if 0 \<le> i \<and> i < int (length xs) then Some (xs ! nat i) else None)"

text \<open>\<open>Array.prototype.join(',')\<close>.\<close>

fun join_comma :: "string list \<Rightarrow> string" where
  "join_comma [] = []"
| "join_comma [x] = x"
| "join_comma (x # y # ys) = x @ '','' @ join_comma (y # ys)"

text \<open>\<open>Set.prototype.add\<close> on a set kept in insertion order.\<close>

definition set_add :: "string list \<Rightarrow> string \<Rightarrow> string list" where
  "set_add xs x = (if x \<in> set xs then xs else xs @ [x])"

text \<open>
  A JavaScript number as \<open>parseInt\<close> returns it: \<open>NaN\<close>, an infinity, \<open>-0\<close>, or a finite
  double with an integer value (\<open>Finite 0\<close> is \<open>+0\<close>).
\<close>

datatype js_number = NaN | PosInfinity | NegInfinity | NegZero | Finite int

text \<open>
  Text that \<open>parseInt\<close> reads is a list of UTF-16 code units. \<open>StrWhiteSpaceChar\<close> of
  ECMAScript: the \<open>WhiteSpace\<close> code points (TAB, VT, FF, U+FEFF and the space separators
  U+0020, U+00A0, U+1680, U+2000 to U+200A, U+202F, U+205F, U+3000) and the
  \<open>LineTerminator\<close> code points (LF, CR, U+2028, U+2029).
\<close>

definition is_white_space :: "nat \<Rightarrow> bool" where
  "is_white_space c =
     (c \<in> set [0x0009, 0x000A, 0x000B, 0x000C, 0x000D, 0x0020, 0x00A0, 0x1680,
                0x2028, 0x2029, 0x202F, 0x205F, 0x3000, 0xFEFF]
      \<or> (0x2000 \<le> c \<and> c \<le> 0x200A))"

definition is_digit :: "nat \<Rightarrow> bool" where
  "is_digit c = (0x30 \<le> c \<and> c \<le> 0x39)"

definition digits_val :: "nat list \<Rightarrow> nat" where
  "digits_val ds = foldl (\<lambda>acc c. 10 * acc + (c - 0x30)) 0 ds"

text \<open>
  When the digits hold more than 20 significant ones, an implementation may replace every
  significant digit after the 20th by 0; \<open>zeroes\<close> says whether it does.
\<close>

definition approximated :: "bool \<Rightarrow> nat list \<Rightarrow> nat list" where
  "approximated zeroes Z =
     (let significant = dropWhile (\<lambda>c. c = 0x30) Z in
      if zeroes \<and> 20 < length significant
      then take 20 significant @ replicate (length significant - 20) 0x30
      else Z)"

text \<open>
  The double nearest to a natural number, ties to the even significand; \<open>None\<close> when it
  rounds to infinity. Below \<open>2 ^ 53\<close> every natural number is a double.
\<close>

fun bit_length :: "nat \<Rightarrow> nat" where
  "bit_length n = (if n = 0 then 0 else Suc (bit_length (n div 2)))"

definition to_double :: "nat \<Rightarrow> nat option" where
  "to_double n =
     (if n < 2 ^ 53 then Some n
      else
        let e = bit_length n - 53;
            q = n div 2 ^ e;
            r = n mod 2 ^ e;
            half = 2 ^ (e - 1);
            q1 = (if half < r \<or> (r = half \<and> odd q) then q + 1 else q);
            v = q1 * 2 ^ e
        in if 2 ^ 1024 \<le> v then None else Some v)"

text \<open>
  \<open>parseInt(inputString, 10)\<close>: leading white space is trimmed, one sign is read, \<open>Z\<close> is
  the longest run of decimal digits that follows (\<open>NaN\<close> when it is empty), and the result
  is the double of the signed value of \<open>Z\<close>.
\<close>

definition parseInt10 :: "bool \<Rightarrow> nat list \<Rightarrow> js_number" where
  "parseInt10 zeroes inputString =
     (let S = dropWhile is_white_space inputString;
          negative = (case S of [] \<Rightarrow> False | c # cs \<Rightarrow> c = 0x2D);
          S1 = (case S of [] \<Rightarrow> [] | c # cs \<Rightarrow> if c = 0x2B \<or> c = 0x2D then cs else S);
          Z = takeWhile is_digit S1
      in if Z = [] then NaN
         else
           let mathInt = digits_val (approximated zeroes Z) in
           if mathInt = 0 then (if negative then NegZero else Finite 0)
           else (case to_double mathInt of
                   None \<Rightarrow> if negative then NegInfinity else PosInfinity
                 | Some v \<Rightarrow> Finite (if negative then - int v else int v)))"

subsection \<open>DOM state\<close>

text \<open>
  The two ref arrays are arrays, as the \<open>Refs\<close> typedef of the source declares them, and
  line numbers and quantities are integers. A cart item row (\<open>refs.cartItemRows[i]\<close>):
\<close>

record row =
  data_key :: "string option"              \<comment> \<open>\<open>dataset.key\<close>\<close>
  data_parent_key :: "string option"       \<comment> \<open>\<open>dataset.parentKey\<close>\<close>
  has_text_component :: bool               \<comment> \<open>\<open>querySelector('text-component')\<close> finds one\<close>
  client_height :: nat                     \<comment> \<open>\<open>clientHeight\<close>\<close>
  row_classes :: "string set"              \<comment> \<open>\<open>classList\<close>\<close>
  row_height :: "nat option"               \<comment> \<open>style property \<open>--row-height\<close>, in px\<close>
  attached :: bool                         \<comment> \<open>still in the document (\<open>remove()\<close> clears it)\<close>
  on_animation_end :: nat                  \<comment> \<open>\<open>remove\<close> callbacks handed to \<open>onAnimationEnd\<close>\<close>

text \<open>The \<open>input\<close> of a quantity selector, and the selector (\<open>refs.quantitySelectors[i]\<close>).\<close>

record quantity_input =
  input_value :: string
  default_value :: string

record quantity_selector =
  selector_input :: "quantity_input option"   \<comment> \<open>\<open>querySelector('input')\<close>\<close>

text \<open>
  A \<open>quantity-selector-component\<close> or \<open>cart-quantity-selector-component\<close> of the document
  (what the two \<open>document.querySelectorAll\<close> calls range over); numeric attributes are
  kept as numbers.
\<close>

record doc_selector =
  ds_variant_id :: "int option"               \<comment> \<open>\<open>data-variant-id\<close>\<close>
  ds_is_cart_selector :: bool                 \<comment> \<open>tag is \<open>cart-quantity-selector-component\<close>\<close>
  ds_cart_quantity :: "int option"            \<comment> \<open>\<open>data-cart-quantity\<close> of its \<open>input[data-cart-quantity]\<close>\<close>
  ds_has_updateCartQuantity :: bool
  ds_has_updateButtonStates :: bool

text \<open>
  The request body passed to \<open>JSON.stringify\<close>, and the parsed response: a JSON object
  whose \<open>errors\<close> is a string when present (the source's JSDoc), and whose \<open>sections\<close>
  and \<open>items\<close> may be absent.
\<close>

record request_body =
  body_line :: int
  body_quantity :: int
  body_sections :: string
  body_sections_url :: string

record cart_item =
  item_variant_id :: int
  item_quantity :: int

text \<open>
  A section's HTML as the browser sees it: the markup, and the \<open>textContent\<close> of the
  first element matching \<open>[ref="cartItemCount"]\<close> in the parsed markup, in UTF-16 code
  units (\<open>None\<close>: no such element).
\<close>

record section_html =
  markup :: string
  cartItemCount_text :: "nat list option"

record parsed_response =
  errors :: "string option"
  sections :: "(string \<rightharpoonup> section_html) option"
  items :: "cart_item list option"

record cart_update_detail =
  itemCount :: js_number
  source :: string
  detail_sections :: "string \<rightharpoonup> section_html"

text \<open>
  Calls into collaborators, in program order. \<open>RowText i\<close> is the \<open>text-component\<close> of
  the row at index \<open>i\<close>; \<open>UpdateCartQuantity k\<close> and \<open>UpdateButtonStates k\<close> are the method
  calls on the \<open>k\<close>-th selector of the document. The component's own \<open>#handleCartUpdate\<close>
  returns at once on an event it dispatched itself (\<open>event.target === this\<close>), so a
  dispatch is only logged.
\<close>

datatype shimmer_target = CartTotal | RowText nat

datatype effect =
    CreateStartingMarker string
  | MeasureFromMarker string
  | Shimmer shimmer_target
  | ResetShimmer
  | Fetch string request_body
  | UpdateCartQuantity nat
  | UpdateButtonStates nat
  | DispatchCartUpdate string cart_update_detail
  | MorphSection string "section_html option"
  | ConsoleError error

record component =
  class_list :: "string set"                           \<comment> \<open>\<open>this.classList\<close>\<close>
  data_section_id :: "string option"                   \<comment> \<open>\<open>this.dataset.sectionId\<close>\<close>
  cartItemRows :: "row list"                           \<comment> \<open>\<open>this.refs.cartItemRows\<close>\<close>
  quantitySelectors :: "quantity_selector list"        \<comment> \<open>\<open>this.refs.quantitySelectors\<close>\<close>
  has_cartTotal :: bool                                \<comment> \<open>\<open>this.refs.cartTotal\<close> is defined\<close>
  cartItemError :: "int \<rightharpoonup> string"                      \<comment> \<open>text of \<open>refs['cartItemError-' + line]\<close>\<close>
  cartItemErrorContainer :: "int \<rightharpoonup> string set"         \<comment> \<open>classes of \<open>refs['cartItemErrorContainer-' + line]\<close>\<close>
  document_section_ids :: "string option list"         \<comment> \<open>\<open>dataset.sectionId\<close> of each \<open>cart-items-component\<close>\<close>
  document_selectors :: "doc_selector list"
  cart_change_url :: string                            \<comment> \<open>\<open>Theme.routes.cart_change_url\<close>\<close>
  location_pathname :: string                          \<comment> \<open>\<open>window.location.pathname\<close>\<close>
  reduced_motion :: bool                               \<comment> \<open>\<open>prefersReducedMotion()\<close>\<close>
  zeroes_long_numerals :: bool                         \<comment> \<open>the engine's option in \<open>parseInt\<close>\<close>
  effects :: "effect list"

datatype result = Returned component | Threw error component

definition state_of :: "result \<Rightarrow> component" where
  "state_of r = (case r of Returned s \<Rightarrow> s | Threw e s \<Rightarrow> s)"

definition thrown :: "result \<Rightarrow> error option" where
  "thrown r = (case r of Returned s \<Rightarrow> None | Threw e s \<Rightarrow> Some e)"

definition emit :: "effect \<Rightarrow> component \<Rightarrow> component" where
  "emit e s = s\<lparr>effects := effects s @ [e]\<rparr>"

subsection \<open>Section id, enabling and disabling\<close>

text \<open>\<open>get sectionId()\<close>: throws when \<open>dataset.sectionId\<close> is falsy (absent or empty).\<close>

definition sectionId :: "component \<Rightarrow> error + string" where
  "sectionId s =
     (case data_section_id s of
        None \<Rightarrow> Inl (Error ''Section id missing'')
      | Some sid \<Rightarrow> if sid = [] then Inl (Error ''Section id missing'') else Inr sid)"

definition disableCartItems :: "component \<Rightarrow> component" where
  "disableCartItems s = s\<lparr>class_list := insert ''cart-items-disabled'' (class_list s)\<rparr>"

definition enableCartItems :: "component \<Rightarrow> component" where
  "enableCartItems s = s\<lparr>class_list := class_list s - {''cart-items-disabled''}\<rparr>"

subsection \<open>updateQuantity: the synchronous part\<close>

record config =
  cfg_line :: int
  cfg_quantity :: int
  cfg_action :: string

text \<open>
  \<open>new Set([this.sectionId])\<close> followed by the \<open>forEach\<close> that adds every truthy
  \<open>dataset.sectionId\<close> of the document's \<open>cart-items-component\<close> elements.
\<close>

definition sectionsToUpdate :: "string \<Rightarrow> string option list \<Rightarrow> string list" where
  "sectionsToUpdate sid ids =
     foldl (\<lambda>acc d. case d of None \<Rightarrow> acc | Some x \<Rightarrow> if x = [] then acc else set_add acc x) [sid] ids"

text \<open>
  Up to the call of \<open>fetch\<close>. The getter \<open>this.sectionId\<close> is read after
  \<open>#disableCartItems()\<close>, so its throw leaves the class added.
\<close>

definition updateQuantity :: "component \<Rightarrow> config \<Rightarrow> result" where
  "updateQuantity s config =
     (let s1 = emit (CreateStartingMarker (cfg_action config @ '':user-action'')) s;
          s2 = disableCartItems s1
      in case sectionId s2 of
           Inl e \<Rightarrow> Threw e s2
         | Inr sid \<Rightarrow>
             let body = \<lparr>body_line = cfg_line config,
                         body_quantity = cfg_quantity config,
                         body_sections = join_comma (sectionsToUpdate sid (document_section_ids s2)),
                         body_sections_url = location_pathname s2\<rparr>;
                 s3 = (if has_cartTotal s2 then emit (Shimmer CartTotal) s2 else s2)
             in Returned (emit (Fetch (cart_change_url s3) body) s3))"

subsection \<open>Removing a line\<close>

text \<open>
  The body of the \<open>forEach\<close> over \<open>rowsToRemove\<close>: \<open>row.remove()\<close> at once under reduced
  motion; otherwise the row gets \<open>--row-height\<close> and the class \<open>removing\<close>, and \<open>remove\<close>
  is handed to \<open>onAnimationEnd\<close>.
\<close>

definition remove_row :: "bool \<Rightarrow> row \<Rightarrow> row" where
  "remove_row reduced r =
     (if reduced then r\<lparr>attached := False\<rparr>
      else r\<lparr>row_height := Some (client_height r),
             row_classes := insert ''removing'' (row_classes r),
             on_animation_end := Suc (on_animation_end r)\<rparr>)"

text \<open>
  Rows are referred to by their index in \<open>refs.cartItemRows\<close>. The list is the row itself
  followed by every row whose \<open>dataset.parentKey\<close> is strictly equal to its \<open>dataset.key\<close>
  (\<open>undefined === undefined\<close> holds).
\<close>

definition rowsToRemove :: "row list \<Rightarrow> nat \<Rightarrow> nat list" where
  "rowsToRemove rows i =
     i # filter (\<lambda>j. data_parent_key (rows ! j) = data_key (rows ! i)) [0..<length rows]"

definition remove_rows :: "bool \<Rightarrow> row list \<Rightarrow> nat list \<Rightarrow> row list" where
  "remove_rows reduced rows js = foldl (\<lambda>rs j. rs[j := remove_row reduced (rs ! j)]) rows js"

definition onLineItemRemove :: "component \<Rightarrow> int \<Rightarrow> result" where
  "onLineItemRemove s line =
     (case updateQuantity s \<lparr>cfg_line = line, cfg_quantity = 0, cfg_action = ''clear''\<rparr> of
        Threw e s1 \<Rightarrow> Threw e s1
      | Returned s1 \<Rightarrow>
          (case js_index (cartItemRows s1) (line - 1) of
             None \<Rightarrow> Returned s1
           | Some r \<Rightarrow>
               Returned (s1\<lparr>cartItemRows :=
                 remove_rows (reduced_motion s1) (cartItemRows s1)
                   (rowsToRemove (cartItemRows s1) (nat (line - 1)))\<rparr>)))"

text \<open>
  Modelled from the spec: \<open>onAnimationEnd\<close> of \<open>@theme/utilities\<close> is not under src/. The
  source's comment says the row is removed after the animation ends: when the animation
  of a row ends, the \<open>remove\<close> callbacks handed over for it run.
\<close>

definition animation_ended :: "row \<Rightarrow> row" where
  "animation_ended r =
     (if on_animation_end r = 0 then r else r\<lparr>attached := False, on_animation_end := 0\<rparr>)"

subsection \<open>The quantity change handler\<close>

record qs_event =
  ev_quantity :: int
  ev_cartLine :: "int option"      \<comment> \<open>\<open>event.detail.cartLine\<close>; \<open>None\<close> is \<open>undefined\<close>\<close>

definition onQuantityChange :: "component \<Rightarrow> qs_event \<Rightarrow> result" where
  "onQuantityChange s event =
     (case ev_cartLine event of
        None \<Rightarrow> Returned s
      | Some line \<Rightarrow>
          if line = 0 then Returned s
          else if ev_quantity event = 0 then onLineItemRemove s line
          else
            (case updateQuantity s
                    \<lparr>cfg_line = line, cfg_quantity = ev_quantity event, cfg_action = ''change''\<rparr> of
               Threw e s1 \<Rightarrow> Threw e s1
             | Returned s1 \<Rightarrow>
                 (case js_index (cartItemRows s1) (line - 1) of
                    None \<Rightarrow> Returned s1
                  | Some r \<Rightarrow>
                      if has_text_component r
                      then Returned (emit (Shimmer (RowText (nat (line - 1)))) s1)
                      else Returned s1)))"

subsection \<open>Handling the response\<close>

text \<open>
  \<open>#handleCartError\<close>. The input is reverted before the two \<open>instanceof\<close> checks, and both
  checks come before the two writes.
\<close>

definition handleCartError :: "component \<Rightarrow> int \<Rightarrow> parsed_response \<Rightarrow> result" where
  "handleCartError s line parsedResponseText =
     (case js_index (quantitySelectors s) (line - 1) of
        None \<Rightarrow> Threw (Error ''Quantity input not found'') s
      | Some quantitySelector \<Rightarrow>
          (case selector_input quantitySelector of
             None \<Rightarrow> Threw (Error ''Quantity input not found'') s
           | Some quantityInput \<Rightarrow>
               let s1 = s\<lparr>quantitySelectors := (quantitySelectors s)
                            [nat (line - 1) := quantitySelector
                               \<lparr>selector_input :=
                                  Some (quantityInput\<lparr>input_value := default_value quantityInput\<rparr>)\<rparr>]\<rparr>
               in (case cartItemError s1 line of
                     None \<Rightarrow> Threw (Error ''Cart item error not found'') s1
                   | Some old_text \<Rightarrow>
                       (case cartItemErrorContainer s1 line of
                          None \<Rightarrow> Threw (Error ''Cart item error container not found'') s1
                        | Some classes \<Rightarrow>
                            Returned (s1\<lparr>cartItemError := (cartItemError s1)
                                           (line \<mapsto> (case errors parsedResponseText of
                                                        None \<Rightarrow> [] | Some t \<Rightarrow> t)),
                                         cartItemErrorContainer := (cartItemErrorContainer s1)
                                           (line \<mapsto> classes - {''hidden''})\<rparr>)))))"

text \<open>\<open>#updateQuantitySelectors\<close>: the body of the inner loop, for the selector at index \<open>k\<close>.\<close>

definition update_selector :: "cart_item \<Rightarrow> component \<Rightarrow> nat \<Rightarrow> component" where
  "update_selector item s k =
     (let d = document_selectors s ! k in
      if ds_variant_id d \<noteq> Some (item_variant_id item) then s
      else (case ds_cart_quantity d of
              None \<Rightarrow> s
            | Some old \<Rightarrow>
                let s1 = s\<lparr>document_selectors := (document_selectors s)
                             [k := d\<lparr>ds_cart_quantity := Some (item_quantity item)\<rparr>]\<rparr>
                in if ds_has_updateCartQuantity d then emit (UpdateCartQuantity k) s1 else s1))"

definition updateQuantitySelectors :: "component \<Rightarrow> parsed_response \<Rightarrow> component" where
  "updateQuantitySelectors s updatedCart =
     (case items updatedCart of
        None \<Rightarrow> s
      | Some its \<Rightarrow>
          foldl (\<lambda>s1 item. foldl (update_selector item) s1 [0..<length (document_selectors s1)]) s its)"

definition update_button :: "component \<Rightarrow> nat \<Rightarrow> component" where
  "update_button s k =
     (let d = document_selectors s ! k in
      if ds_is_cart_selector d \<and> ds_has_updateButtonStates d then emit (UpdateButtonStates k) s else s)"

definition updateCartQuantitySelectorButtonStates :: "component \<Rightarrow> component" where
  "updateCartQuantitySelectorButtonStates s = foldl update_button s [0..<length (document_selectors s)]"

text \<open>
  What \<open>fetch(...).then(response => response.text())\<close> settles with: a rejection of either
  promise, or the response text. The text is either not JSON or the JSON object it
  denotes.
\<close>

datatype response_text = NotJson | Json parsed_response

datatype fetch_outcome = FetchRejected string | TextRejected string | ResponseText response_text

datatype 'a promise = Fulfilled 'a | Rejected error

definition JSON_parse :: "response_text \<Rightarrow> error + parsed_response" where
  "JSON_parse t = (case t of NotJson \<Rightarrow> Inl SyntaxError | Json p \<Rightarrow> Inr p)"

text \<open>
  The second \<open>then\<close> callback. In \<open>parsedResponseText.sections[this.sectionId]\<close> the getter
  runs before the property read on \<open>sections\<close>, so a missing section id is reported
  before a missing \<open>sections\<close>.
\<close>

definition onResponseText :: "component \<Rightarrow> int \<Rightarrow> response_text \<Rightarrow> result" where
  "onResponseText s line responseText =
     (case JSON_parse responseText of
        Inl e \<Rightarrow> Threw e s
      | Inr parsedResponseText \<Rightarrow>
          let s1 = emit ResetShimmer s in
          if truthy_string (errors parsedResponseText)
          then handleCartError s1 line parsedResponseText
          else
            (case sectionId s1 of
               Inl e \<Rightarrow> Threw e s1
             | Inr sid \<Rightarrow>
                 (case sections parsedResponseText of
                    None \<Rightarrow> Threw (TypeError ''Cannot read properties of undefined'') s1
                  | Some secs \<Rightarrow>
                      let newSectionHTML = secs sid;
                          newCartHiddenItemCount =
                            (case newSectionHTML of None \<Rightarrow> None | Some h \<Rightarrow> cartItemCount_text h);
                          newCartItemCount =
                            (case newCartHiddenItemCount of
                               None \<Rightarrow> Finite 0
                             | Some t \<Rightarrow>
                                 if t = [] then Finite 0
                                 else parseInt10 (zeroes_long_numerals s1) t);
                          s2 = updateQuantitySelectors s1 parsedResponseText;
                          s3 = emit (DispatchCartUpdate sid
                                       \<lparr>itemCount = newCartItemCount,
                                        source = ''cart-items-component'',
                                        detail_sections = secs\<rparr>) s2;
                          s4 = emit (MorphSection sid newSectionHTML) s3
                      in Returned (updateCartQuantitySelectorButtonStates s4))))"

subsection \<open>The promise chain\<close>

definition text_promise :: "fetch_outcome \<Rightarrow> response_text promise" where
  "text_promise outcome =
     (case outcome of
        FetchRejected m \<Rightarrow> Rejected (Rejection m)
      | TextRejected m \<Rightarrow> Rejected (Rejection m)
      | ResponseText t \<Rightarrow> Fulfilled t)"

definition promise_then ::
  "(component \<Rightarrow> 'a \<Rightarrow> result) \<Rightarrow> component \<times> 'a promise \<Rightarrow> component \<times> unit promise" where
  "promise_then f sp =
     (case snd sp of
        Rejected e \<Rightarrow> (fst sp, Rejected e)
      | Fulfilled v \<Rightarrow>
          (case f (fst sp) v of
             Returned s1 \<Rightarrow> (s1, Fulfilled ())
           | Threw e s1 \<Rightarrow> (s1, Rejected e)))"

definition promise_catch ::
  "(component \<Rightarrow> error \<Rightarrow> component) \<Rightarrow> component \<times> unit promise \<Rightarrow> component \<times> unit promise" where
  "promise_catch f sp =
     (case snd sp of
        Rejected e \<Rightarrow> (f (fst sp) e, Fulfilled ())
      | Fulfilled v \<Rightarrow> sp)"

definition promise_finally ::
  "(component \<Rightarrow> component) \<Rightarrow> component \<times> unit promise \<Rightarrow> component \<times> unit promise" where
  "promise_finally f sp = (f (fst sp), snd sp)"

text \<open>
  The chain \<open>.then(...).catch(...).finally(...)\<close> of \<open>updateQuantity\<close>, run on the state the
  component has when the request settles.
\<close>

definition response_handled :: "component \<Rightarrow> config \<Rightarrow> fetch_outcome \<Rightarrow> component \<times> unit promise" where
  "response_handled s config outcome =
     promise_then (\<lambda>s1 t. onResponseText s1 (cfg_line config) t) (s, text_promise outcome)"

definition settle :: "component \<Rightarrow> config \<Rightarrow> fetch_outcome \<Rightarrow> component \<times> unit promise" where
  "settle s config outcome =
     promise_finally
       (\<lambda>s1. emit (MeasureFromMarker (cfg_action config @ '':user-action'')) (enableCartItems s1))
       (promise_catch (\<lambda>s1 e. emit (ConsoleError e) s1)
          (response_handled s config outcome))"

subsection \<open>The debounced listener\<close>

text \<open>
  Modelled from the spec: \<open>debounce\<close> of \<open>@theme/utilities\<close> is not under src/. The spec
  speaks of debouncing rapid quantity-change events: a call of the wrapper cancels the
  pending timer and starts one of \<open>wait\<close> milliseconds that will call the wrapped function
  with the arguments of this call. The pending timer is its deadline and those arguments.
\<close>

definition debounce :: "nat \<Rightarrow> nat \<Rightarrow> 'a \<Rightarrow> (nat \<times> 'a) option \<Rightarrow> (nat \<times> 'a) option" where
  "debounce wait now args timeout = Some (now + wait, args)"

text \<open>
  \<open>#debouncedOnChange = debounce(this.#onQuantityChange, 300)\<close> is the listener of
  \<open>ThemeEvents.quantitySelectorUpdate\<close>. The events arrive with their times in
  milliseconds; a timer whose deadline has come runs before the next listener call, and
  the last timer runs once the events are over. An error thrown in the timer callback
  goes to nobody, and the component keeps the state reached at the throw.
\<close>

definition timer_due :: "component \<Rightarrow> nat \<Rightarrow> (nat \<times> qs_event) option \<Rightarrow> component" where
  "timer_due s now timeout =
     (case timeout of
        None \<Rightarrow> s
      | Some (deadline, event) \<Rightarrow>
          if deadline \<le> now then state_of (onQuantityChange s event) else s)"

fun quantitySelectorUpdates ::
  "component \<Rightarrow> (nat \<times> qs_event) option \<Rightarrow> (nat \<times> qs_event) list \<Rightarrow> component" where
  "quantitySelectorUpdates s timeout [] =
     (case timeout of None \<Rightarrow> s | Some (deadline, event) \<Rightarrow> state_of (onQuantityChange s event))"
| "quantitySelectorUpdates s timeout ((now, event) # rest) =
     quantitySelectorUpdates (timer_due s now timeout) (debounce 300 now event timeout) rest"

text \<open>A burst: times in order, each event less than \<open>wait\<close> milliseconds after the one before.\<close>

fun burst :: "nat \<Rightarrow> (nat \<times> 'a) list \<Rightarrow> bool" where
  "burst wait [] = True"
| "burst wait [x] = True"
| "burst wait (x # y # rest) = (fst x \<le> fst y \<and> fst y < fst x + wait \<and> burst wait (y # rest))"

subsection \<open>Reading the effect log\<close>

definition is_fetch :: "effect \<Rightarrow> bool" where
  "is_fetch e = (case e of Fetch url body \<Rightarrow> True | _ \<Rightarrow> False)"

definition is_morph :: "effect \<Rightarrow> bool" where
  "is_morph e = (case e of MorphSection sid html \<Rightarrow> True | _ \<Rightarrow> False)"

definition is_dispatch :: "effect \<Rightarrow> bool" where
  "is_dispatch e = (case e of DispatchCartUpdate sid detail \<Rightarrow> True | _ \<Rightarrow> False)"

definition is_selector_call :: "effect \<Rightarrow> bool" where
  "is_selector_call e =
     (case e of UpdateCartQuantity k \<Rightarrow> True | UpdateButtonStates k \<Rightarrow> True | _ \<Rightarrow> False)"

definition only_selector_calls :: "effect list \<Rightarrow> bool" where
  "only_selector_calls xs = (filter (\<lambda>e. \<not> is_selector_call e) xs = [])"

text \<open>The request \<open>updateQuantity\<close> sends for a line and a quantity.\<close>

definition request_for :: "component \<Rightarrow> string \<Rightarrow> int \<Rightarrow> int \<Rightarrow> effect" where
  "request_for s sid line quantity =
     Fetch (cart_change_url s)
       \<lparr>body_line = line, body_quantity = quantity,
        body_sections = join_comma (sectionsToUpdate sid (document_section_ids s)),
        body_sections_url = location_pathname s\<rparr>"

text \<open>The item count \<open>updateQuantity\<close> reads from a section of the response.\<close>

definition item_count_of :: "bool \<Rightarrow> section_html option \<Rightarrow> js_number" where
  "item_count_of zeroes html =
     (case html of
        None \<Rightarrow> Finite 0
      | Some h \<Rightarrow>
          (case cartItemCount_text h of
             None \<Rightarrow> Finite 0
           | Some t \<Rightarrow> if t = [] then Finite 0 else parseInt10 zeroes t))"

subsection \<open>A cart of three lines\<close>

text \<open>Line 2 is nested under line 1; every line has its selector, error text and container.\<close>

definition cart_row :: "string \<Rightarrow> string option \<Rightarrow> row" where
  "cart_row k parent =
     \<lparr>data_key = Some k, data_parent_key = parent, has_text_component = True,
      client_height = 40, row_classes = {}, row_height = None, attached = True,
      on_animation_end = 0\<rparr>"

definition cart_selector :: "string \<Rightarrow> string \<Rightarrow> quantity_selector" where
  "cart_selector v d = \<lparr>selector_input = Some \<lparr>input_value = v, default_value = d\<rparr>\<rparr>"

definition cart3 :: component where
  "cart3 =
     \<lparr>class_list = {},
      data_section_id = Some ''main'',
      cartItemRows = [cart_row ''a'' None, cart_row ''b'' (Some ''a''), cart_row ''c'' None],
      quantitySelectors = [cart_selector ''5'' ''2'', cart_selector ''1'' ''1'', cart_selector ''4'' ''3''],
      has_cartTotal = True,
      cartItemError = [1 \<mapsto> [], 2 \<mapsto> [], 3 \<mapsto> []],
      cartItemErrorContainer = [1 \<mapsto> {''hidden''}, 2 \<mapsto> {''hidden''}, 3 \<mapsto> {''hidden''}],
      document_section_ids = [Some ''main'', Some ''drawer'', None],
      document_selectors =
        [\<lparr>ds_variant_id = Some 7, ds_is_cart_selector = True, ds_cart_quantity = Some 5,
          ds_has_updateCartQuantity = True, ds_has_updateButtonStates = True\<rparr>],
      cart_change_url = ''/cart/change.js'',
      location_pathname = ''/cart'',
      reduced_motion = True,
      zeroes_long_numerals = False,
      effects = []\<rparr>"

definition sold_out :: parsed_response where
  "sold_out = \<lparr>errors = Some ''Sold out'', sections = None, items = None\<rparr>"

definition bad_request :: parsed_response where
  "bad_request = \<lparr>errors = None, sections = None, items = None\<rparr>"

definition main_section :: section_html where
  "main_section = \<lparr>markup = ''<table></table>'', cartItemCount_text = Some [0x31, 0x32]\<rparr>"

definition updated_sections :: "string \<rightharpoonup> section_html" where
  "updated_sections = [''main'' \<mapsto> main_section]"

definition updated_cart :: parsed_response where
  "updated_cart =
     \<lparr>errors = None,
      sections = Some updated_sections,
      items = Some [\<lparr>item_variant_id = 7, item_quantity = 6\<rparr>]\<rparr>"

text \<open>The same cart when the selector of line 1 has no \<open>input\<close>.\<close>

definition cart3_no_input :: component where
  "cart3_no_input =
     cart3\<lparr>quantitySelectors :=
       [\<lparr>selector_input = None\<rparr>, cart_selector ''1'' ''1'', cart_selector ''4'' ''3'']\<rparr>"

text \<open>The same cart without \<open>data-section-id\<close>, and with animations (no reduced motion).\<close>

definition cart3_no_section :: component where
  "cart3_no_section = cart3\<lparr>data_section_id := None\<rparr>"

definition cart3_animated :: component where
  "cart3_animated = cart3\<lparr>reduced_motion := False\<rparr>"

definition change_line_1 :: config where
  "change_line_1 = \<lparr>cfg_line = 1, cfg_quantity = 5, cfg_action = ''change''\<rparr>"

definition change_line_2 :: config where
  "change_line_2 = \<lparr>cfg_line = 2, cfg_quantity = 3, cfg_action = ''change''\<rparr>"

definition clear_line_2 :: config where
  "clear_line_2 = \<lparr>cfg_line = 2, cfg_quantity = 0, cfg_action = ''clear''\<rparr>"

text \<open>
  Two events 100 milliseconds apart: a change of line 1 and then the removal of line 3,
  and the same two the other way round.
\<close>

definition change_then_remove :: "(nat \<times> qs_event) list" where
  "change_then_remove =
     [(0, \<lparr>ev_quantity = 2, ev_cartLine = Some 1\<rparr>),
      (100, \<lparr>ev_quantity = 0, ev_cartLine = Some 3\<rparr>)]"

definition remove_then_change :: "(nat \<times> qs_event) list" where
  "remove_then_change =
     [(0, \<lparr>ev_quantity = 0, ev_cartLine = Some 3\<rparr>),
      (100, \<lparr>ev_quantity = 2, ev_cartLine = Some 1\<rparr>)]"

text \<open>
  What the \<open>forEach\<close> of \<open>onLineItemRemove\<close> leaves of a row it has visited: under reduced
  motion the row is out of the document; otherwise it carries the class \<open>removing\<close> and
  its height, a \<open>remove\<close> callback waits for the end of its animation, and the row is out
  of the document once the animation has ended.
\<close>

definition removal_started :: "bool \<Rightarrow> row \<Rightarrow> bool" where
  "removal_started reduced r =
     (if reduced then \<not> attached r
      else ''removing'' \<in> row_classes r \<and> row_height r = Some (client_height r)
           \<and> 0 < on_animation_end r \<and> \<not> attached (animation_ended r))"

text \<open>Three clicks on the selector of line 1, 100 and 250 milliseconds apart.\<close>

definition three_clicks :: "(nat \<times> qs_event) list" where
  "three_clicks =
     [(0, \<lparr>ev_quantity = 2, ev_cartLine = Some 1\<rparr>),
      (100, \<lparr>ev_quantity = 3, ev_cartLine = Some 1\<rparr>),
      (350, \<lparr>ev_quantity = 4, ev_cartLine = Some 1\<rparr>)]"

section \<open>Properties\<close>

subsection \<open>Basic facts about the log and the class list\<close>

lemma effects_emit: "effects (emit e s) = effects s @ [e]"
  by (simp add: emit_def)

lemma class_list_emit: "class_list (emit e s) = class_list s"
  by (simp add: emit_def)

lemma settle_fst:
  "fst (settle s config outcome) =
     emit (MeasureFromMarker (cfg_action config @ '':user-action''))
       (enableCartItems
          (fst (promise_catch (\<lambda>s1 e. emit (ConsoleError e) s1) (response_handled s config outcome))))"
  by (simp add: settle_def promise_finally_def)

subsection \<open>An event without a line\<close>

text \<open>
  C8. For every quantity-selector update event whose \<open>cartLine\<close> is falsy (absent or 0),
  \<open>#onQuantityChange\<close> returns without any effect: the component's state, its log of
  requests and calls included, is the one it started with.
\<close>

theorem onQuantityChange_falsy_line_no_effect:
  "\<not> truthy_number (ev_cartLine event) \<Longrightarrow> onQuantityChange s event = Returned s"
  by (simp add: onQuantityChange_def truthy_number_def split: option.splits)

theorem onQuantityChange_falsy_line_witness:
  "\<not> truthy_number (ev_cartLine \<lparr>ev_quantity = 3, ev_cartLine = Some 0\<rparr>)
   \<and> \<not> truthy_number (ev_cartLine \<lparr>ev_quantity = 0, ev_cartLine = None\<rparr>)
   \<and> onQuantityChange cart3 \<lparr>ev_quantity = 3, ev_cartLine = Some 0\<rparr> = Returned cart3
   \<and> onQuantityChange cart3 \<lparr>ev_quantity = 0, ev_cartLine = None\<rparr> = Returned cart3"
  using onQuantityChange_falsy_line_no_effect [of "\<lparr>ev_quantity = 3, ev_cartLine = Some 0\<rparr>" cart3]
    onQuantityChange_falsy_line_no_effect [of "\<lparr>ev_quantity = 0, ev_cartLine = None\<rparr>" cart3]
  by (simp add: truthy_number_def)

subsection \<open>A component without a section id\<close>

text \<open>
  C9. If the component has no \<open>data-section-id\<close> attribute, the \<open>sectionId\<close> getter throws
  \<open>Error('Section id missing')\<close>; \<open>updateQuantity\<close> then throws that error after it has
  added the class \<open>cart-items-disabled\<close> and before any request is issued, and the class
  is in place in the state it leaves.
\<close>

theorem sectionId_missing_leaves_disabled:
  assumes "data_section_id s = None"
  shows "sectionId s = Inl (Error ''Section id missing'')
    \<and> updateQuantity s config =
        Threw (Error ''Section id missing'')
          (disableCartItems (emit (CreateStartingMarker (cfg_action config @ '':user-action'')) s))
    \<and> ''cart-items-disabled'' \<in> class_list (state_of (updateQuantity s config))
    \<and> filter is_fetch (effects (state_of (updateQuantity s config))) = filter is_fetch (effects s)"
  using assms
  by (simp add: sectionId_def updateQuantity_def Let_def disableCartItems_def emit_def
      state_of_def is_fetch_def)

theorem sectionId_missing_witness:
  "data_section_id (cart3\<lparr>data_section_id := None\<rparr>) = None
   \<and> thrown (updateQuantity (cart3\<lparr>data_section_id := None\<rparr>) change_line_1)
       = Some (Error ''Section id missing'')
   \<and> class_list (state_of (updateQuantity (cart3\<lparr>data_section_id := None\<rparr>) change_line_1))
       = {''cart-items-disabled''}
   \<and> effects (state_of (updateQuantity (cart3\<lparr>data_section_id := None\<rparr>) change_line_1))
       = [CreateStartingMarker ''change:user-action'']"
  using sectionId_missing_leaves_disabled [of "cart3\<lparr>data_section_id := None\<rparr>" change_line_1]
  by (simp add: cart3_def change_line_1_def thrown_def state_of_def disableCartItems_def emit_def)

subsection \<open>Facts about the promise chain and the log\<close>

lemma settle_fulfilled: "snd (settle s config outcome) = Fulfilled ()"
  by (simp add: settle_def promise_finally_def promise_catch_def split: promise.splits)

lemma settle_rejected:
  "response_handled s config outcome = (s1, Rejected e) \<Longrightarrow>
   settle s config outcome =
     (emit (MeasureFromMarker (cfg_action config @ '':user-action''))
        (enableCartItems (emit (ConsoleError e) s1)), Fulfilled ())"
  by (simp add: settle_def promise_finally_def promise_catch_def)

lemma settle_returned:
  "response_handled s config outcome = (s1, Fulfilled ()) \<Longrightarrow>
   settle s config outcome =
     (emit (MeasureFromMarker (cfg_action config @ '':user-action''))
        (enableCartItems s1), Fulfilled ())"
  by (simp add: settle_def promise_finally_def promise_catch_def)

lemma response_handled_text:
  "response_handled s config (ResponseText t) =
     (case onResponseText s (cfg_line config) t of
        Returned s1 \<Rightarrow> (s1, Fulfilled ())
      | Threw e s1 \<Rightarrow> (s1, Rejected e))"
  by (simp add: response_handled_def promise_then_def text_promise_def)

lemma onResponseText_errors:
  "truthy_string (errors p) \<Longrightarrow>
   onResponseText s line (Json p) = handleCartError (emit ResetShimmer s) line p"
  by (simp add: onResponseText_def JSON_parse_def Let_def)

lemmas run_defs = settle_def promise_finally_def promise_catch_def response_handled_text
  onResponseText_def JSON_parse_def Let_def truthy_string_def handleCartError_def js_index_def
  emit_def enableCartItems_def sectionId_def updateQuantitySelectors_def update_selector_def
  updateCartQuantitySelectorButtonStates_def update_button_def parseInt10_def is_white_space_def
  is_digit_def digits_val_def approximated_def to_double_def is_morph_def is_dispatch_def

lemmas cart3_defs = cart3_def cart_row_def cart_selector_def change_line_1_def

text \<open>\<open>parseInt10\<close> on some texts: white space beyond ASCII, signs, and rounding to a double.\<close>

lemma parseInt10_examples:
  "parseInt10 z [0x31, 0x32] = Finite 12"
  "parseInt10 z [0xA0, 0x31, 0x32] = Finite 12"
  "parseInt10 z [0x2028, 0x3000, 0x2D, 0x34, 0x32, 0x70, 0x78] = Finite (- 42)"
  "parseInt10 z [0x61] = NaN"
  "parseInt10 z [0x2D, 0x30] = NegZero"
  "parseInt10 z [0x2B, 0x2D, 0x31] = NaN"
  "parseInt10 z [0x30, 0x78, 0x31, 0x30] = Finite 0"
  by (simp_all add: parseInt10_def is_white_space_def is_digit_def digits_val_def approximated_def
      to_double_def Let_def)

lemma parseInt10_rounds_to_double:
  "parseInt10 z [0x39,0x30,0x30,0x37,0x31,0x39,0x39,0x32,0x35,0x34,0x37,0x34,0x30,0x39,0x39,0x33]
     = Finite 9007199254740992"
  "parseInt10 z [0x39,0x30,0x30,0x37,0x31,0x39,0x39,0x32,0x35,0x34,0x37,0x34,0x30,0x39,0x39,0x35]
     = Finite 9007199254740996"
  by (simp_all add: parseInt10_def is_white_space_def is_digit_def digits_val_def approximated_def
      to_double_def Let_def)

lemma only_selector_calls_Nil: "only_selector_calls []"
  by (simp add: only_selector_calls_def)

lemma only_selector_calls_append:
  "only_selector_calls (xs @ ys) = (only_selector_calls xs \<and> only_selector_calls ys)"
  by (simp add: only_selector_calls_def)

lemma only_selector_calls_no_morph:
  "only_selector_calls xs \<Longrightarrow> filter is_morph xs = [] \<and> filter is_dispatch xs = []"
  by (induction xs)
     (auto simp: only_selector_calls_def is_selector_call_def is_morph_def is_dispatch_def
       split: effect.splits if_splits)

lemma handleCartError_effects: "effects (state_of (handleCartError s line p)) = effects s"
  by (simp add: handleCartError_def state_of_def Let_def split: option.splits)

lemma update_selector_effects:
  "\<exists>xs. effects (update_selector item s k) = effects s @ xs \<and> only_selector_calls xs"
  by (simp add: update_selector_def Let_def emit_def only_selector_calls_def is_selector_call_def
      split: option.splits)

lemma foldl_update_selector_effects:
  "\<exists>xs. effects (foldl (update_selector item) s ks) = effects s @ xs \<and> only_selector_calls xs"
proof (induction ks arbitrary: s)
  case Nil
  show ?case by (simp add: only_selector_calls_Nil)
next
  case (Cons k ks)
  obtain xs where xs: "effects (update_selector item s k) = effects s @ xs" "only_selector_calls xs"
    using update_selector_effects by blast
  obtain ys where ys: "effects (foldl (update_selector item) (update_selector item s k) ks)
      = effects (update_selector item s k) @ ys" "only_selector_calls ys"
    using Cons.IH by blast
  show ?case
    using xs ys by (simp add: only_selector_calls_append)
qed

lemma updateQuantitySelectors_effects:
  "\<exists>xs. effects (updateQuantitySelectors s p) = effects s @ xs \<and> only_selector_calls xs"
proof (cases "items p")
  case None
  then show ?thesis by (simp add: updateQuantitySelectors_def only_selector_calls_Nil)
next
  case (Some its)
  have "\<exists>xs. effects (foldl (\<lambda>s1 item. foldl (update_selector item) s1
            [0..<length (document_selectors s1)]) s its) = effects s @ xs \<and> only_selector_calls xs"
  proof (induction its arbitrary: s)
    case Nil
    show ?case by (simp add: only_selector_calls_Nil)
  next
    case (Cons item its)
    let ?s1 = "foldl (update_selector item) s [0..<length (document_selectors s)]"
    obtain xs where xs: "effects ?s1 = effects s @ xs" "only_selector_calls xs"
      using foldl_update_selector_effects by blast
    obtain ys where ys: "effects (foldl (\<lambda>s1 item. foldl (update_selector item) s1
            [0..<length (document_selectors s1)]) ?s1 its) = effects ?s1 @ ys" "only_selector_calls ys"
      using Cons.IH by blast
    show ?case
      using xs ys by (simp add: only_selector_calls_append)
  qed
  with Some show ?thesis by (simp add: updateQuantitySelectors_def)
qed

lemma foldl_update_button_effects:
  "\<exists>xs. effects (foldl update_button s ks) = effects s @ xs \<and> only_selector_calls xs"
proof (induction ks arbitrary: s)
  case Nil
  show ?case by (simp add: only_selector_calls_Nil)
next
  case (Cons k ks)
  have "\<exists>xs. effects (update_button s k) = effects s @ xs \<and> only_selector_calls xs"
    by (simp add: update_button_def Let_def emit_def only_selector_calls_def is_selector_call_def)
  then obtain xs where xs: "effects (update_button s k) = effects s @ xs" "only_selector_calls xs"
    by blast
  obtain ys where ys: "effects (foldl update_button (update_button s k) ks)
      = effects (update_button s k) @ ys" "only_selector_calls ys"
    using Cons.IH by blast
  show ?case
    using xs ys by (simp add: only_selector_calls_append)
qed

lemma button_states_effects:
  "\<exists>xs. effects (updateCartQuantitySelectorButtonStates s) = effects s @ xs \<and> only_selector_calls xs"
  by (simp add: updateCartQuantitySelectorButtonStates_def foldl_update_button_effects)

lemma sectionId_emit: "sectionId (emit e s) = sectionId s"
  by (simp add: sectionId_def emit_def)

lemma zeroes_emit: "zeroes_long_numerals (emit e s) = zeroes_long_numerals s"
  by (simp add: emit_def)

lemma onResponseText_success:
  assumes "\<not> truthy_string (errors p)" "sectionId s = Inr sid" "sections p = Some secs"
  shows "\<exists>pre post. onResponseText s line (Json p) = Returned
           (updateCartQuantitySelectorButtonStates
              (emit (MorphSection sid (secs sid))
                 (emit (DispatchCartUpdate sid
                          \<lparr>itemCount = item_count_of (zeroes_long_numerals s) (secs sid),
                     source = ''cart-items-component'',
                           detail_sections = secs\<rparr>)
                    (updateQuantitySelectors (emit ResetShimmer s) p))))"
  using assms
  by (simp add: onResponseText_def JSON_parse_def Let_def sectionId_emit zeroes_emit
      item_count_of_def split: option.splits)

lemma settle_success_effects:
  assumes "\<not> truthy_string (errors p)" "sectionId s = Inr sid" "sections p = Some secs"
  shows "\<exists>pre post.
           effects (fst (settle s config (ResponseText (Json p)))) =
             effects s @ [ResetShimmer] @ pre
               @ [DispatchCartUpdate sid
                    \<lparr>itemCount = item_count_of (zeroes_long_numerals s) (secs sid),
                     source = ''cart-items-component'',
                     detail_sections = secs\<rparr>,
                  MorphSection sid (secs sid)]
               @ post @ [MeasureFromMarker (cfg_action config @ '':user-action'')]
           \<and> only_selector_calls pre \<and> only_selector_calls post"
proof -
  let ?s2 = "updateQuantitySelectors (emit ResetShimmer s) p"
  let ?d = "DispatchCartUpdate sid
              \<lparr>itemCount = item_count_of (zeroes_long_numerals s) (secs sid),
                     source = ''cart-items-component'',
               detail_sections = secs\<rparr>"
  let ?s4 = "emit (MorphSection sid (secs sid)) (emit ?d ?s2)"
  obtain pre where pre: "effects ?s2 = effects (emit ResetShimmer s) @ pre" "only_selector_calls pre"
    using updateQuantitySelectors_effects by blast
  obtain post where post: "effects (updateCartQuantitySelectorButtonStates ?s4) = effects ?s4 @ post"
      "only_selector_calls post"
    using button_states_effects by blast
  have r: "onResponseText s (cfg_line config) (Json p) = Returned (updateCartQuantitySelectorButtonStates ?s4)"
    using onResponseText_success [OF assms] by simp
  have "response_handled s config (ResponseText (Json p))
          = (updateCartQuantitySelectorButtonStates ?s4, Fulfilled ())"
    by (simp add: response_handled_text r)
  then have "fst (settle s config (ResponseText (Json p)))
          = emit (MeasureFromMarker (cfg_action config @ '':user-action''))
              (enableCartItems (updateCartQuantitySelectorButtonStates ?s4))"
    by (simp add: settle_returned)
  then have "effects (fst (settle s config (ResponseText (Json p))))
      = effects s @ [ResetShimmer] @ pre @ [?d, MorphSection sid (secs sid)] @ post
          @ [MeasureFromMarker (cfg_action config @ '':user-action'')]"
    using pre(1) post(1) by (simp add: effects_emit enableCartItems_def)
  with pre(2) post(2) show ?thesis by blast
qed

lemma settle_error_state:
  assumes "truthy_string (errors p)"
  shows "fst (settle s config (ResponseText (Json p))) =
     emit (MeasureFromMarker (cfg_action config @ '':user-action''))
       (enableCartItems
          (case handleCartError (emit ResetShimmer s) (cfg_line config) p of
             Returned s1 \<Rightarrow> s1
           | Threw e s1 \<Rightarrow> emit (ConsoleError e) s1))"
  using assms
  by (simp add: settle_def promise_finally_def promise_catch_def response_handled_text
      onResponseText_errors split: result.splits)

lemma settle_error_effects:
  assumes "truthy_string (errors p)"
  shows "effects (fst (settle s config (ResponseText (Json p)))) =
     effects s @ [ResetShimmer]
       @ (case thrown (handleCartError (emit ResetShimmer s) (cfg_line config) p) of
            None \<Rightarrow> [] | Some e \<Rightarrow> [ConsoleError e])
       @ [MeasureFromMarker (cfg_action config @ '':user-action'')]"
proof (cases "handleCartError (emit ResetShimmer s) (cfg_line config) p")
  case (Returned s1)
  with handleCartError_effects [of "emit ResetShimmer s" "cfg_line config" p]
  show ?thesis
    by (simp add: settle_error_state [OF assms] effects_emit enableCartItems_def thrown_def state_of_def)
next
  case (Threw e s1)
  with handleCartError_effects [of "emit ResetShimmer s" "cfg_line config" p]
  show ?thesis
    by (simp add: settle_error_state [OF assms] effects_emit enableCartItems_def thrown_def state_of_def)
qed

lemma handleCartError_all_present:
  assumes "js_index (quantitySelectors s) (line - 1) = Some sel" "selector_input sel = Some inp"
    "cartItemError s line = Some old" "cartItemErrorContainer s line = Some classes"
  shows "handleCartError s line p = Returned
     (s\<lparr>quantitySelectors := (quantitySelectors s)
           [nat (line - 1) := sel\<lparr>selector_input := Some (inp\<lparr>input_value := default_value inp\<rparr>)\<rparr>],
        cartItemError := (cartItemError s)(line \<mapsto> (case errors p of None \<Rightarrow> [] | Some t \<Rightarrow> t)),
        cartItemErrorContainer := (cartItemErrorContainer s)(line \<mapsto> classes - {''hidden''})\<rparr>)"
  using assms by (simp add: handleCartError_def Let_def)

subsection \<open>Disabling the cart items during a request\<close>

text \<open>
  C4, as the code has it. \<open>updateQuantity\<close> adds the class \<open>cart-items-disabled\<close> and then,
  when the component has a section id, issues the fetch: it returns the disabled state
  with the request as the last entry of the log. For every outcome of a request (success,
  server error, rejection of the fetch, text that is not JSON) the class is removed when
  that request settles, whatever state the component is in by then.
\<close>

theorem request_sets_class_and_settling_removes_it:
  "''cart-items-disabled'' \<in> class_list (state_of (updateQuantity s config))
   \<and> (sectionId s = Inr sid \<longrightarrow>
        updateQuantity s config = Returned
          ((disableCartItems (emit (CreateStartingMarker (cfg_action config @ '':user-action'')) s))
             \<lparr>effects := effects s @ [CreateStartingMarker (cfg_action config @ '':user-action'')]
                @ (if has_cartTotal s then [Shimmer CartTotal] else [])
                @ [request_for s sid (cfg_line config) (cfg_quantity config)]\<rparr>))
   \<and> ''cart-items-disabled'' \<notin> class_list (fst (settle s1 config1 outcome))"
proof (intro conjI impI)
  show "''cart-items-disabled'' \<in> class_list (state_of (updateQuantity s config))"
    by (simp add: updateQuantity_def Let_def disableCartItems_def emit_def state_of_def
        split: sum.splits)
  show "''cart-items-disabled'' \<notin> class_list (fst (settle s1 config1 outcome))"
    by (simp add: settle_fst class_list_emit enableCartItems_def)
next
  assume "sectionId s = Inr sid"
  then show "updateQuantity s config = Returned
          ((disableCartItems (emit (CreateStartingMarker (cfg_action config @ '':user-action'')) s))
             \<lparr>effects := effects s @ [CreateStartingMarker (cfg_action config @ '':user-action'')]
                @ (if has_cartTotal s then [Shimmer CartTotal] else [])
                @ [request_for s sid (cfg_line config) (cfg_quantity config)]\<rparr>)"
    by (auto simp add: updateQuantity_def Let_def sectionId_def disableCartItems_def emit_def
        request_for_def split: option.splits if_splits)
qed

theorem request_sets_class_witness:
  "sectionId cart3 = Inr ''main''
   \<and> ''cart-items-disabled'' \<notin> class_list cart3
   \<and> class_list (state_of (updateQuantity cart3 change_line_1)) = {''cart-items-disabled''}
   \<and> effects (state_of (updateQuantity cart3 change_line_1)) =
        [CreateStartingMarker ''change:user-action'', Shimmer CartTotal,
         Fetch ''/cart/change.js''
           \<lparr>body_line = 1, body_quantity = 5, body_sections = ''main,drawer'',
            body_sections_url = ''/cart''\<rparr>]
   \<and> ''cart-items-disabled'' \<notin> class_list
        (fst (settle (state_of (updateQuantity cart3 change_line_1)) change_line_1
               (FetchRejected ''Failed to fetch'')))"
proof -
  have a: "sectionId cart3 = Inr ''main''"
    by (simp add: sectionId_def cart3_def)
  note t = request_sets_class_and_settling_removes_it [of cart3 change_line_1 "''main''"
      "state_of (updateQuantity cart3 change_line_1)" change_line_1 "FetchRejected ''Failed to fetch''"]
  have r: "request_for cart3 ''main'' 1 5 = Fetch ''/cart/change.js''
           \<lparr>body_line = 1, body_quantity = 5, body_sections = ''main,drawer'',
            body_sections_url = ''/cart''\<rparr>"
    by (simp add: cart3_def request_for_def sectionsToUpdate_def set_add_def)
  have u: "updateQuantity cart3 change_line_1 = Returned
          ((disableCartItems (emit (CreateStartingMarker ''change:user-action'') cart3))
             \<lparr>effects := [CreateStartingMarker ''change:user-action'', Shimmer CartTotal,
                 request_for cart3 ''main'' 1 5]\<rparr>)"
    using t a by (simp add: change_line_1_def cart3_def)
  have c: "class_list (state_of (updateQuantity cart3 change_line_1)) = {''cart-items-disabled''}"
    "effects (state_of (updateQuantity cart3 change_line_1)) =
        [CreateStartingMarker ''change:user-action'', Shimmer CartTotal, request_for cart3 ''main'' 1 5]"
    unfolding u by (simp_all add: state_of_def disableCartItems_def emit_def cart3_def)
  have d: "''cart-items-disabled'' \<notin> class_list cart3"
    by (simp add: cart3_def)
  show ?thesis
    using t [THEN conjunct2, THEN conjunct2] a c d by (simp add: r)
qed

text \<open>
  C4 as stated fails in its first words: the class does not mark exactly the time a
  request is in flight. With two requests issued, the class is gone as soon as the first
  one settles, while the second is still in flight; and on a component without
  \<open>data-section-id\<close> the class is set although no request was issued.
\<close>

theorem disabled_not_exactly_in_flight_counterexample:
  "effects (fst (settle (state_of (updateQuantity (state_of (updateQuantity cart3 change_line_1))
                                     change_line_2))
                  change_line_1 (FetchRejected ''Failed to fetch''))) =
     [CreateStartingMarker ''change:user-action'', Shimmer CartTotal,
      Fetch ''/cart/change.js''
        \<lparr>body_line = 1, body_quantity = 5, body_sections = ''main,drawer'',
         body_sections_url = ''/cart''\<rparr>,
      CreateStartingMarker ''change:user-action'', Shimmer CartTotal,
      Fetch ''/cart/change.js''
        \<lparr>body_line = 2, body_quantity = 3, body_sections = ''main,drawer'',
         body_sections_url = ''/cart''\<rparr>,
      ConsoleError (Rejection ''Failed to fetch''), MeasureFromMarker ''change:user-action'']
   \<and> ''cart-items-disabled'' \<notin> class_list
        (fst (settle (state_of (updateQuantity (state_of (updateQuantity cart3 change_line_1))
                                  change_line_2))
                change_line_1 (FetchRejected ''Failed to fetch'')))
   \<and> ''cart-items-disabled'' \<in> class_list (state_of (updateQuantity cart3_no_section change_line_1))
   \<and> filter is_fetch (effects (state_of (updateQuantity cart3_no_section change_line_1))) = []"
  by (simp add: settle_def promise_finally_def promise_catch_def response_handled_def
      promise_then_def text_promise_def updateQuantity_def Let_def sectionId_def
      disableCartItems_def enableCartItems_def emit_def state_of_def sectionsToUpdate_def
      set_add_def is_fetch_def cart3_defs change_line_2_def cart3_no_section_def)

subsection \<open>A response that reports errors\<close>

text \<open>
  C1, as the code has it. For every cart-change response whose parsed JSON has a truthy
  \<open>errors\<close> field the component neither morphs the section nor dispatches a
  CartUpdateEvent. When the affected line has a quantity input, an inline error element
  and an error container, it reverts the input to its \<open>defaultValue\<close>, sets the text of
  the error element to the \<open>errors\<close> value and removes \<open>hidden\<close> from the container.
\<close>

theorem cart_error_reverts_input_and_shows_text:
  assumes "truthy_string (errors p)"
  shows "filter is_morph (effects (fst (settle s config (ResponseText (Json p)))))
           = filter is_morph (effects s)
    \<and> filter is_dispatch (effects (fst (settle s config (ResponseText (Json p)))))
           = filter is_dispatch (effects s)
    \<and> (js_index (quantitySelectors s) (cfg_line config - 1) = Some sel
         \<and> selector_input sel = Some inp
         \<and> cartItemError s (cfg_line config) = Some old
         \<and> cartItemErrorContainer s (cfg_line config) = Some classes \<longrightarrow>
       js_index (quantitySelectors (fst (settle s config (ResponseText (Json p))))) (cfg_line config - 1)
           = Some (sel\<lparr>selector_input := Some (inp\<lparr>input_value := default_value inp\<rparr>)\<rparr>)
       \<and> cartItemError (fst (settle s config (ResponseText (Json p)))) (cfg_line config) = errors p
       \<and> cartItemErrorContainer (fst (settle s config (ResponseText (Json p)))) (cfg_line config)
           = Some (classes - {''hidden''}))"
proof (intro conjI impI)
  show "filter is_morph (effects (fst (settle s config (ResponseText (Json p)))))
           = filter is_morph (effects s)"
    by (simp add: settle_error_effects [OF assms] is_morph_def split: option.splits)
  show "filter is_dispatch (effects (fst (settle s config (ResponseText (Json p)))))
           = filter is_dispatch (effects s)"
    by (simp add: settle_error_effects [OF assms] is_dispatch_def split: option.splits)
next
  assume a: "js_index (quantitySelectors s) (cfg_line config - 1) = Some sel
         \<and> selector_input sel = Some inp
         \<and> cartItemError s (cfg_line config) = Some old
         \<and> cartItemErrorContainer s (cfg_line config) = Some classes"
  let ?s1 = "emit ResetShimmer s"
  have h: "handleCartError ?s1 (cfg_line config) p = Returned
     (?s1\<lparr>quantitySelectors := (quantitySelectors ?s1)
           [nat (cfg_line config - 1) := sel\<lparr>selector_input := Some (inp\<lparr>input_value := default_value inp\<rparr>)\<rparr>],
        cartItemError := (cartItemError ?s1)(cfg_line config \<mapsto> (case errors p of None \<Rightarrow> [] | Some t \<Rightarrow> t)),
        cartItemErrorContainer := (cartItemErrorContainer ?s1)(cfg_line config \<mapsto> classes - {''hidden''})\<rparr>)"
    using a by (intro handleCartError_all_present) (simp_all add: emit_def)
  have e: "errors p = Some (case errors p of None \<Rightarrow> [] | Some t \<Rightarrow> t)"
    using assms by (simp add: truthy_string_def split: option.splits)
  have st: "fst (settle s config (ResponseText (Json p))) =
     emit (MeasureFromMarker (cfg_action config @ '':user-action''))
       (enableCartItems
         (?s1\<lparr>quantitySelectors := (quantitySelectors ?s1)
           [nat (cfg_line config - 1) := sel\<lparr>selector_input := Some (inp\<lparr>input_value := default_value inp\<rparr>)\<rparr>],
        cartItemError := (cartItemError ?s1)(cfg_line config \<mapsto> (case errors p of None \<Rightarrow> [] | Some t \<Rightarrow> t)),
        cartItemErrorContainer := (cartItemErrorContainer ?s1)(cfg_line config \<mapsto> classes - {''hidden''})\<rparr>))"
    by (simp only: settle_error_state [OF assms] h result.case)
  show "js_index (quantitySelectors (fst (settle s config (ResponseText (Json p))))) (cfg_line config - 1)
           = Some (sel\<lparr>selector_input := Some (inp\<lparr>input_value := default_value inp\<rparr>)\<rparr>)"
    using a by (simp add: st emit_def enableCartItems_def js_index_def split: if_splits)
  show "cartItemError (fst (settle s config (ResponseText (Json p)))) (cfg_line config) = errors p"
    using e by (simp add: st emit_def enableCartItems_def)
  show "cartItemErrorContainer (fst (settle s config (ResponseText (Json p)))) (cfg_line config)
           = Some (classes - {''hidden''})"
    by (simp add: st emit_def enableCartItems_def)
qed

theorem cart_error_witness:
  "truthy_string (errors sold_out)
   \<and> js_index (quantitySelectors cart3) (cfg_line change_line_1 - 1) = Some (cart_selector ''5'' ''2'')
   \<and> quantitySelectors (fst (settle cart3 change_line_1 (ResponseText (Json sold_out))))
       = [cart_selector ''2'' ''2'', cart_selector ''1'' ''1'', cart_selector ''4'' ''3'']
   \<and> cartItemError (fst (settle cart3 change_line_1 (ResponseText (Json sold_out)))) 1 = Some ''Sold out''
   \<and> cartItemErrorContainer (fst (settle cart3 change_line_1 (ResponseText (Json sold_out)))) 1 = Some {}
   \<and> filter is_morph (effects (fst (settle cart3 change_line_1 (ResponseText (Json sold_out))))) = []
   \<and> filter is_dispatch (effects (fst (settle cart3 change_line_1 (ResponseText (Json sold_out))))) = []"
proof -
  have t: "truthy_string (errors sold_out)"
    by (simp add: sold_out_def truthy_string_def)
  note c = cart_error_reverts_input_and_shows_text [OF t, of cart3 change_line_1
      "cart_selector ''5'' ''2''" "\<lparr>input_value = ''5'', default_value = ''2''\<rparr>" "[]" "{''hidden''}"]
  have q: "quantitySelectors (fst (settle cart3 change_line_1 (ResponseText (Json sold_out))))
       = [cart_selector ''2'' ''2'', cart_selector ''1'' ''1'', cart_selector ''4'' ''3'']"
    by (simp add: run_defs cart3_defs sold_out_def)
  show ?thesis
    using c t q
    by (simp add: js_index_def change_line_1_def cart3_def cart_selector_def sold_out_def)
qed

text \<open>
  C1 as stated fails when the selector of the line has no \<open>input\<close>: \<open>#handleCartError\<close>
  throws before it reaches the error element, whose text stays as it was, and the
  container stays hidden.
\<close>

theorem cart_error_without_input_counterexample:
  "truthy_string (errors sold_out)
   \<and> cartItemError cart3_no_input 1 = Some []
   \<and> cartItemErrorContainer cart3_no_input 1 = Some {''hidden''}
   \<and> cartItemError (fst (settle cart3_no_input change_line_1 (ResponseText (Json sold_out)))) 1
       \<noteq> errors sold_out
   \<and> cartItemErrorContainer (fst (settle cart3_no_input change_line_1 (ResponseText (Json sold_out)))) 1
       = Some {''hidden''}"
  by (simp add: run_defs cart3_defs sold_out_def cart3_no_input_def)

subsection \<open>Errors of the request\<close>

text \<open>
  C5, as the code has it. Every error arising from the fetch call or from processing its
  response is caught by the one catch handler and logged to the console, and nothing
  else is done about it: the promise chain always ends fulfilled, so no such error
  escapes it, and when the response handling rejects with \<open>e\<close> in state \<open>s1\<close>, the state
  left is \<open>s1\<close> with \<open>console.error(e)\<close> logged, followed by the \<open>finally\<close> handler only.
  A rejected fetch, a rejected \<open>response.text()\<close>, text that is not JSON and an error
  thrown by \<open>#handleCartError\<close> are such rejections.
\<close>

theorem errors_caught_and_logged:
  "snd (settle s config outcome) = Fulfilled ()
   \<and> (response_handled s config outcome = (s1, Rejected e) \<longrightarrow>
        settle s config outcome =
          (emit (MeasureFromMarker (cfg_action config @ '':user-action''))
             (enableCartItems (emit (ConsoleError e) s1)), Fulfilled ()))
   \<and> response_handled s config (FetchRejected m) = (s, Rejected (Rejection m))
   \<and> response_handled s config (TextRejected m) = (s, Rejected (Rejection m))
   \<and> response_handled s config (ResponseText NotJson) = (s, Rejected SyntaxError)
   \<and> (truthy_string (errors p) \<longrightarrow>
        handleCartError (emit ResetShimmer s) (cfg_line config) p = Threw e1 s2 \<longrightarrow>
        response_handled s config (ResponseText (Json p)) = (s2, Rejected e1))"
  apply (intro conjI impI)
       apply (rule settle_fulfilled)
      apply (erule settle_rejected)
     apply (simp add: response_handled_def promise_then_def text_promise_def)
    apply (simp add: response_handled_def promise_then_def text_promise_def)
   apply (simp add: response_handled_text onResponseText_def JSON_parse_def)
  apply (simp add: response_handled_text onResponseText_errors)
  done

theorem errors_caught_and_logged_witness:
  "truthy_string (errors sold_out)
   \<and> handleCartError (emit ResetShimmer cart3_no_input) (cfg_line change_line_1) sold_out
       = Threw (Error ''Quantity input not found'') (emit ResetShimmer cart3_no_input)
   \<and> settle cart3_no_input change_line_1 (ResponseText (Json sold_out))
       = (emit (MeasureFromMarker ''change:user-action'')
            (enableCartItems
               (emit (ConsoleError (Error ''Quantity input not found''))
                  (emit ResetShimmer cart3_no_input))), Fulfilled ())
   \<and> effects (fst (settle cart3_no_input change_line_1 (ResponseText (Json sold_out))))
       = [ResetShimmer, ConsoleError (Error ''Quantity input not found''),
          MeasureFromMarker ''change:user-action'']
   \<and> settle cart3 change_line_1 (FetchRejected ''Failed to fetch'')
       = (emit (MeasureFromMarker ''change:user-action'')
            (enableCartItems (emit (ConsoleError (Rejection ''Failed to fetch'')) cart3)), Fulfilled ())"
proof -
  have t: "truthy_string (errors sold_out)"
    by (simp add: sold_out_def truthy_string_def)
  have h: "handleCartError (emit ResetShimmer cart3_no_input) (cfg_line change_line_1) sold_out
       = Threw (Error ''Quantity input not found'') (emit ResetShimmer cart3_no_input)"
    by (simp add: handleCartError_def js_index_def change_line_1_def cart3_no_input_def cart3_def emit_def)
  note c = errors_caught_and_logged [of cart3_no_input change_line_1 "ResponseText (Json sold_out)"
       "emit ResetShimmer cart3_no_input" "Error ''Quantity input not found''" "''x''" sold_out
       "Error ''Quantity input not found''" "emit ResetShimmer cart3_no_input"]
  note d = errors_caught_and_logged [of cart3 change_line_1 "FetchRejected ''Failed to fetch''"
       cart3 "Rejection ''Failed to fetch''" "''Failed to fetch''" sold_out
       "Error ''Quantity input not found''" "emit ResetShimmer cart3_no_input"]
  have s: "settle cart3_no_input change_line_1 (ResponseText (Json sold_out))
       = (emit (MeasureFromMarker ''change:user-action'')
            (enableCartItems
               (emit (ConsoleError (Error ''Quantity input not found''))
                  (emit ResetShimmer cart3_no_input))), Fulfilled ())"
    using c t h by (simp add: change_line_1_def)
  have f: "settle cart3 change_line_1 (FetchRejected ''Failed to fetch'')
       = (emit (MeasureFromMarker ''change:user-action'')
            (enableCartItems (emit (ConsoleError (Rejection ''Failed to fetch'')) cart3)), Fulfilled ())"
    using d by (simp add: change_line_1_def)
  have e: "effects (fst (settle cart3_no_input change_line_1 (ResponseText (Json sold_out))))
       = [ResetShimmer, ConsoleError (Error ''Quantity input not found''),
          MeasureFromMarker ''change:user-action'']"
    unfolding s by (simp add: emit_def enableCartItems_def cart3_no_input_def cart3_def)
  show ?thesis using t h s e f by simp
qed

text \<open>
  C5 as stated fails in "no error escapes \<open>updateQuantity\<close>": on a component without
  \<open>data-section-id\<close> the error of the \<open>sectionId\<close> getter is thrown out of \<open>updateQuantity\<close>
  before the promise chain exists, and nothing logs it.
\<close>

theorem getter_error_escapes_updateQuantity_counterexample:
  "thrown (updateQuantity cart3_no_section clear_line_2) = Some (Error ''Section id missing'')
   \<and> effects (state_of (updateQuantity cart3_no_section clear_line_2))
        = [CreateStartingMarker ''clear:user-action'']"
  by (simp add: updateQuantity_def Let_def sectionId_def disableCartItems_def emit_def
      state_of_def thrown_def cart3_defs clear_line_2_def cart3_no_section_def)

subsection \<open>A response without errors\<close>

text \<open>
  C3, as the code has it. For every cart-change response whose \<open>errors\<close> is falsy and
  that has a \<open>sections\<close> object, on a component with a section id, the component
  dispatches a CartUpdateEvent and right after it morphs its section with
  \<open>sections[sectionId]\<close>; nothing but calls into quantity selectors is logged around the
  two. The event's \<open>itemCount\<close> is \<open>parseInt(text, 10)\<close> of the text of the
  \<open>[ref="cartItemCount"]\<close> element of that section, or 0 when the section or the element
  is absent or the text is empty.
\<close>

theorem success_dispatches_then_morphs:
  assumes "\<not> truthy_string (errors p)" "sectionId s = Inr sid" "sections p = Some secs"
  shows "(\<exists>pre post.
           effects (fst (settle s config (ResponseText (Json p)))) =
             effects s @ [ResetShimmer] @ pre
               @ [DispatchCartUpdate sid
                    \<lparr>itemCount = item_count_of (zeroes_long_numerals s) (secs sid),
                     source = ''cart-items-component'',
                     detail_sections = secs\<rparr>,
                  MorphSection sid (secs sid)]
               @ post @ [MeasureFromMarker (cfg_action config @ '':user-action'')]
           \<and> only_selector_calls pre \<and> only_selector_calls post)
    \<and> item_count_of z None = Finite 0
    \<and> (cartItemCount_text h = None \<longrightarrow> item_count_of z (Some h) = Finite 0)
    \<and> (cartItemCount_text h = Some [] \<longrightarrow> item_count_of z (Some h) = Finite 0)
    \<and> (cartItemCount_text h = Some t \<and> t \<noteq> [] \<longrightarrow>
          item_count_of z (Some h) = parseInt10 z t)"
  using settle_success_effects [OF assms, of config]
  by (simp add: item_count_of_def)

theorem success_dispatches_then_morphs_witness:
  "\<not> truthy_string (errors updated_cart)
   \<and> sectionId cart3 = Inr ''main''
   \<and> sections updated_cart = Some updated_sections
   \<and> item_count_of (zeroes_long_numerals cart3) (updated_sections ''main'') = Finite 12
   \<and> (\<exists>pre post.
        effects (fst (settle cart3 change_line_1 (ResponseText (Json updated_cart)))) =
          [ResetShimmer] @ pre
            @ [DispatchCartUpdate ''main''
                 \<lparr>itemCount = Finite 12, source = ''cart-items-component'',
                  detail_sections = updated_sections\<rparr>,
               MorphSection ''main'' (Some main_section)]
            @ post @ [MeasureFromMarker ''change:user-action'']
        \<and> only_selector_calls pre \<and> only_selector_calls post)"
proof -
  have a: "\<not> truthy_string (errors updated_cart)"
    by (simp add: updated_cart_def truthy_string_def)
  have b: "sectionId cart3 = Inr ''main''"
    by (simp add: sectionId_def cart3_def)
  have c: "sections updated_cart = Some updated_sections"
    by (simp add: updated_cart_def)
  have d: "item_count_of (zeroes_long_numerals cart3) (updated_sections ''main'') = Finite 12"
    by (simp add: run_defs cart3_defs item_count_of_def updated_sections_def main_section_def)
  have e: "updated_sections ''main'' = Some main_section"
    by (simp add: updated_sections_def)
  have f: "effects cart3 = []" "cfg_action change_line_1 = ''change''"
    by (simp_all add: cart3_def change_line_1_def)
  show ?thesis
    using success_dispatches_then_morphs [OF a b c, of change_line_1 False main_section "[0x31, 0x32]"]
      a b c d
    by (simp add: e f)
qed

text \<open>
  C3 as stated fails for a response that has neither \<open>errors\<close> nor \<open>sections\<close>: reading
  \<open>sections[sectionId]\<close> throws a TypeError, which is logged; nothing is dispatched and
  nothing is morphed.
\<close>

theorem response_without_sections_counterexample:
  "errors bad_request = None
   \<and> sectionId cart3 = Inr ''main''
   \<and> effects (fst (settle cart3 change_line_1 (ResponseText (Json bad_request))))
       = [ResetShimmer, ConsoleError (TypeError ''Cannot read properties of undefined''),
          MeasureFromMarker ''change:user-action'']
   \<and> filter is_morph (effects (fst (settle cart3 change_line_1 (ResponseText (Json bad_request))))) = []
   \<and> filter is_dispatch (effects (fst (settle cart3 change_line_1 (ResponseText (Json bad_request))))) = []"
  by (simp add: run_defs cart3_defs bad_request_def)

subsection \<open>Facts about removing rows and issuing the request\<close>

lemma remove_rows_length: "length (remove_rows b rows js) = length rows"
  unfolding remove_rows_def by (induction js arbitrary: rows) simp_all

lemma remove_rows_nth:
  "j < length rows \<Longrightarrow>
   remove_rows b rows js ! j = ((remove_row b) ^^ count_list js j) (rows ! j)"
  unfolding remove_rows_def
proof (induction js arbitrary: rows)
  case Nil
  show ?case by simp
next
  case (Cons k ks)
  let ?rows1 = "rows[k := remove_row b (rows ! k)]"
  have "j < length ?rows1" using Cons.prems by simp
  from Cons.IH [OF this]
  have "foldl (\<lambda>rs j. rs[j := remove_row b (rs ! j)]) ?rows1 ks ! j
          = (remove_row b ^^ count_list ks j) (?rows1 ! j)" .
  moreover have "?rows1 ! j = (if k = j then remove_row b (rows ! j) else rows ! j)"
    using Cons.prems by (simp add: nth_list_update)
  ultimately show ?case
    by (simp add: funpow_swap1)
qed

lemma remove_row_funpow_True:
  "(remove_row True ^^ n) r = (if n = 0 then r else r\<lparr>attached := False\<rparr>)"
  by (induction n) (simp_all add: remove_row_def)

lemma remove_row_funpow_False:
  "(remove_row False ^^ n) r =
     (if n = 0 then r
      else r\<lparr>row_height := Some (client_height r),
             row_classes := insert ''removing'' (row_classes r),
             on_animation_end := on_animation_end r + n\<rparr>)"
  by (induction n) (auto simp add: remove_row_def)

lemma removal_started_funpow:
  "0 < n \<Longrightarrow> removal_started b ((remove_row b ^^ n) r)"
  by (cases b)
     (simp_all add: remove_row_funpow_True remove_row_funpow_False removal_started_def
       animation_ended_def)

lemma count_rowsToRemove:
  "j < length rows \<Longrightarrow>
   0 < count_list (rowsToRemove rows i) j
     \<longleftrightarrow> (j = i \<or> data_parent_key (rows ! j) = data_key (rows ! i))"
proof -
  have "0 < count_list (rowsToRemove rows i) j \<longleftrightarrow> j \<in> set (rowsToRemove rows i)"
    using count_list_0_iff [of "rowsToRemove rows i" j] by auto
  moreover assume "j < length rows"
  ultimately show ?thesis
    by (auto simp add: rowsToRemove_def)
qed

lemma updateQuantity_returns:
  assumes "sectionId s = Inr sid"
  shows "updateQuantity s config = Returned
     ((if has_cartTotal s
       then emit (Shimmer CartTotal)
              (disableCartItems (emit (CreateStartingMarker (cfg_action config @ '':user-action'')) s))
       else disableCartItems (emit (CreateStartingMarker (cfg_action config @ '':user-action'')) s))
      \<lparr>effects := effects s @ [CreateStartingMarker (cfg_action config @ '':user-action'')]
          @ (if has_cartTotal s then [Shimmer CartTotal] else [])
          @ [request_for s sid (cfg_line config) (cfg_quantity config)]\<rparr>)"
  using assms
  by (auto simp add: updateQuantity_def Let_def sectionId_def disableCartItems_def emit_def
      request_for_def split: option.splits if_splits)

lemma updateQuantity_frame:
  assumes "updateQuantity s config = Returned s1"
  shows "cartItemRows s1 = cartItemRows s \<and> reduced_motion s1 = reduced_motion s
     \<and> quantitySelectors s1 = quantitySelectors s"
  using assms
  by (auto simp add: updateQuantity_def Let_def disableCartItems_def emit_def
      split: sum.splits if_splits)

lemma updateQuantity_effects:
  assumes "sectionId s = Inr sid"
  shows "effects (state_of (updateQuantity s config)) =
     effects s @ [CreateStartingMarker (cfg_action config @ '':user-action'')]
          @ (if has_cartTotal s then [Shimmer CartTotal] else [])
          @ [request_for s sid (cfg_line config) (cfg_quantity config)]
    \<and> thrown (updateQuantity s config) = None"
  by (simp add: updateQuantity_returns [OF assms] state_of_def thrown_def)

lemma onLineItemRemove_rows:
  assumes "sectionId s = Inr sid" "js_index (cartItemRows s) (line - 1) = Some r"
  shows "cartItemRows (state_of (onLineItemRemove s line)) =
           remove_rows (reduced_motion s) (cartItemRows s)
             (rowsToRemove (cartItemRows s) (nat (line - 1)))
     \<and> effects (state_of (onLineItemRemove s line)) =
           effects s @ [CreateStartingMarker ''clear:user-action'']
             @ (if has_cartTotal s then [Shimmer CartTotal] else [])
             @ [request_for s sid line 0]
     \<and> thrown (onLineItemRemove s line) = None"
proof -
  let ?c = "\<lparr>cfg_line = line, cfg_quantity = 0, cfg_action = ''clear''\<rparr>"
  obtain s1 where s1: "updateQuantity s ?c = Returned s1"
    using updateQuantity_returns [OF assms(1)] by blast
  have f: "cartItemRows s1 = cartItemRows s" "reduced_motion s1 = reduced_motion s"
    using updateQuantity_frame [OF s1] by simp_all
  have e: "effects s1 = effects s @ [CreateStartingMarker ''clear:user-action'']
             @ (if has_cartTotal s then [Shimmer CartTotal] else [])
             @ [request_for s sid line 0]"
    using updateQuantity_effects [OF assms(1), of ?c] s1 by (simp add: state_of_def)
  show ?thesis
    using assms(2) by (simp add: onLineItemRemove_def s1 f e state_of_def thrown_def)
qed

lemma onLineItemRemove_request:
  assumes "sectionId s = Inr sid"
  shows "effects (state_of (onLineItemRemove s line)) =
           effects s @ [CreateStartingMarker ''clear:user-action'']
             @ (if has_cartTotal s then [Shimmer CartTotal] else [])
             @ [request_for s sid line 0]
     \<and> thrown (onLineItemRemove s line) = None"
proof -
  let ?c = "\<lparr>cfg_line = line, cfg_quantity = 0, cfg_action = ''clear''\<rparr>"
  obtain s1 where s1: "updateQuantity s ?c = Returned s1"
    using updateQuantity_returns [OF assms] by blast
  have e: "effects s1 = effects s @ [CreateStartingMarker ''clear:user-action'']
             @ (if has_cartTotal s then [Shimmer CartTotal] else [])
             @ [request_for s sid line 0]"
    using updateQuantity_effects [OF assms, of ?c] s1 by (simp add: state_of_def)
  show ?thesis
    by (simp add: onLineItemRemove_def s1 e state_of_def thrown_def split: option.splits)
qed

lemma onQuantityChange_zero:
  "ev_quantity event = 0 \<Longrightarrow> ev_cartLine event = Some line \<Longrightarrow> line \<noteq> 0 \<Longrightarrow>
   onQuantityChange s event = onLineItemRemove s line"
  by (simp add: onQuantityChange_def)

lemma line_row_removal_started:
  assumes "sectionId s = Inr sid" "js_index (cartItemRows s) (line - 1) = Some r"
  shows "removal_started (reduced_motion s)
           (cartItemRows (state_of (onLineItemRemove s line)) ! nat (line - 1))"
proof -
  let ?rows = "cartItemRows s"
  let ?i = "nat (line - 1)"
  have i: "?i < length ?rows"
    using assms(2) by (auto simp add: js_index_def split: if_splits)
  have "0 < count_list (rowsToRemove ?rows ?i) ?i"
    using count_rowsToRemove [OF i, of ?i] by simp
  then show ?thesis
    using onLineItemRemove_rows [OF assms]
    by (simp add: remove_rows_nth [OF i] removal_started_funpow)
qed

lemma onLineItemRemove_no_row:
  assumes "sectionId s = Inr sid" "js_index (cartItemRows s) (line - 1) = None"
  shows "cartItemRows (state_of (onLineItemRemove s line)) = cartItemRows s"
proof -
  let ?c = "\<lparr>cfg_line = line, cfg_quantity = 0, cfg_action = ''clear''\<rparr>"
  obtain s1 where s1: "updateQuantity s ?c = Returned s1"
    using updateQuantity_returns [OF assms(1)] by blast
  have f: "cartItemRows s1 = cartItemRows s"
    using updateQuantity_frame [OF s1] by simp
  show ?thesis
    using assms(2) by (simp add: onLineItemRemove_def s1 f state_of_def)
qed

lemma line_row_stays_until_animation_end:
  assumes "sectionId s = Inr sid" "js_index (cartItemRows s) (line - 1) = Some r"
    "\<not> reduced_motion s"
  shows "attached (cartItemRows (state_of (onLineItemRemove s line)) ! nat (line - 1)) = attached r"
proof -
  let ?rows = "cartItemRows s"
  let ?i = "nat (line - 1)"
  have i: "?i < length ?rows" "?rows ! ?i = r"
    using assms(2) by (auto simp add: js_index_def split: if_splits)
  show ?thesis
    using onLineItemRemove_rows [OF assms(1,2)] assms(3) i(2)
    by (simp add: remove_rows_nth [OF i(1)] remove_row_funpow_False)
qed

lemma burst_updates:
  "burst 300 ((now, event) # rest) \<Longrightarrow>
   (case timeout of None \<Rightarrow> True | Some (deadline, a) \<Rightarrow> now < deadline) \<Longrightarrow>
   quantitySelectorUpdates s timeout ((now, event) # rest)
     = state_of (onQuantityChange s (snd (last ((now, event) # rest))))"
proof (induction rest arbitrary: now event timeout)
  case Nil
  then show ?case
    by (auto simp add: timer_due_def debounce_def split: option.splits)
next
  case (Cons x rest)
  obtain now' event' where x: "x = (now', event')" by (cases x)
  have due: "timer_due s now timeout = s"
    using Cons.prems(2) by (auto simp add: timer_due_def split: option.splits)
  have b: "burst 300 ((now', event') # rest)" and lt: "now' < now + 300"
    using Cons.prems(1) by (simp_all add: x)
  have "quantitySelectorUpdates s (Some (now + 300, event)) ((now', event') # rest)
      = state_of (onQuantityChange s (snd (last ((now', event') # rest))))"
    using Cons.IH [OF b, of "Some (now + 300, event)"] lt by simp
  then show ?case
    by (simp add: x due debounce_def)
qed

lemmas remove_defs = onQuantityChange_def onLineItemRemove_def updateQuantity_def Let_def
  sectionId_def disableCartItems_def emit_def js_index_def remove_rows_def rowsToRemove_def
  remove_row_def state_of_def thrown_def request_for_def sectionsToUpdate_def set_add_def

subsection \<open>Quantity 0 removes the line\<close>

text \<open>
  C2, as the code has it. On a component that has a section id, a quantity-selector
  update event carrying quantity 0 and a truthy line index that reaches
  \<open>#onQuantityChange\<close> removes that line: an update request with quantity 0 is issued
  under the action \<open>clear\<close>; when there is a cart item row at index \<open>line - 1\<close>, it is
  removed from the document at once under reduced motion, and otherwise stays in the
  document, marked \<open>removing\<close>, until its animation has ended, and is removed then; when
  there is no such row, no row changes. The debounced listener hands the last event of a
  burst to \<open>#onQuantityChange\<close>, so such an event is handled this way.
\<close>

theorem quantity_zero_removes_line:
  assumes "sectionId s = Inr sid" "ev_quantity event = 0" "ev_cartLine event = Some line"
    "line \<noteq> 0"
  shows "thrown (onQuantityChange s event) = None
    \<and> effects (state_of (onQuantityChange s event)) =
         effects s @ [CreateStartingMarker ''clear:user-action'']
           @ (if has_cartTotal s then [Shimmer CartTotal] else [])
           @ [request_for s sid line 0]
    \<and> (js_index (cartItemRows s) (line - 1) = Some r \<longrightarrow>
         removal_started (reduced_motion s)
           (cartItemRows (state_of (onQuantityChange s event)) ! nat (line - 1))
         \<and> (\<not> reduced_motion s \<longrightarrow>
              attached (cartItemRows (state_of (onQuantityChange s event)) ! nat (line - 1))
                = attached r))
    \<and> (js_index (cartItemRows s) (line - 1) = None \<longrightarrow>
         cartItemRows (state_of (onQuantityChange s event)) = cartItemRows s)
    \<and> (events \<noteq> [] \<and> burst 300 events \<and> snd (last events) = event \<longrightarrow>
         quantitySelectorUpdates s None events = state_of (onQuantityChange s event))"
proof (intro conjI impI)
  note z = onQuantityChange_zero [OF assms(2,3,4)]
  show "thrown (onQuantityChange s event) = None"
    using onLineItemRemove_request [OF assms(1), of line] by (simp add: z)
  show "effects (state_of (onQuantityChange s event)) =
         effects s @ [CreateStartingMarker ''clear:user-action'']
           @ (if has_cartTotal s then [Shimmer CartTotal] else [])
           @ [request_for s sid line 0]"
    using onLineItemRemove_request [OF assms(1), of line] by (simp add: z)
  {
    assume r: "js_index (cartItemRows s) (line - 1) = Some r"
    show "removal_started (reduced_motion s)
           (cartItemRows (state_of (onQuantityChange s event)) ! nat (line - 1))"
      using line_row_removal_started [OF assms(1) r] by (simp add: z)
    assume "\<not> reduced_motion s"
    from line_row_stays_until_animation_end [OF assms(1) r this]
    show "attached (cartItemRows (state_of (onQuantityChange s event)) ! nat (line - 1)) = attached r"
      by (simp add: z)
  }
  {
    assume "js_index (cartItemRows s) (line - 1) = None"
    from onLineItemRemove_no_row [OF assms(1) this]
    show "cartItemRows (state_of (onQuantityChange s event)) = cartItemRows s"
      by (simp add: z)
  }
  {
    assume e: "events \<noteq> [] \<and> burst 300 events \<and> snd (last events) = event"
    then obtain now ev rest where l: "events = (now, ev) # rest"
      by (cases events) auto
    show "quantitySelectorUpdates s None events = state_of (onQuantityChange s event)"
      using burst_updates [of now ev rest None s] e by (simp add: l)
  }
qed

theorem quantity_zero_removes_line_witness:
  "sectionId cart3 = Inr ''main''
   \<and> change_then_remove \<noteq> [] \<and> burst 300 change_then_remove
   \<and> snd (last change_then_remove) = \<lparr>ev_quantity = 0, ev_cartLine = Some 3\<rparr>
   \<and> js_index (cartItemRows cart3) (3 - 1) = Some (cart_row ''c'' None)
   \<and> effects (quantitySelectorUpdates cart3 None change_then_remove) =
        [CreateStartingMarker ''clear:user-action'', Shimmer CartTotal,
         Fetch ''/cart/change.js''
           \<lparr>body_line = 3, body_quantity = 0, body_sections = ''main,drawer'',
            body_sections_url = ''/cart''\<rparr>]
   \<and> \<not> attached (cartItemRows (quantitySelectorUpdates cart3 None change_then_remove) ! 2)
   \<and> attached (cartItemRows (state_of (onQuantityChange cart3_animated \<lparr>ev_quantity = 0, ev_cartLine = Some 3\<rparr>)) ! 2)
   \<and> removal_started False
        (cartItemRows (state_of (onQuantityChange cart3_animated \<lparr>ev_quantity = 0, ev_cartLine = Some 3\<rparr>)) ! 2)
   \<and> \<not> attached (animation_ended
        (cartItemRows (state_of (onQuantityChange cart3_animated \<lparr>ev_quantity = 0, ev_cartLine = Some 3\<rparr>)) ! 2))"
proof -
  let ?e = "\<lparr>ev_quantity = 0, ev_cartLine = Some 3\<rparr>"
  have a: "sectionId cart3 = Inr ''main''" "sectionId cart3_animated = Inr ''main''"
    by (simp_all add: sectionId_def cart3_def cart3_animated_def)
  have b: "js_index (cartItemRows cart3) (3 - 1) = Some (cart_row ''c'' None)"
    "js_index (cartItemRows cart3_animated) (3 - 1) = Some (cart_row ''c'' None)"
    by (simp_all add: js_index_def cart3_def cart3_animated_def)
  have c: "change_then_remove \<noteq> []" "burst 300 change_then_remove"
    "snd (last change_then_remove) = ?e"
    by (simp_all add: change_then_remove_def)
  note t1 = quantity_zero_removes_line [OF a(1), of ?e 3 "cart_row ''c'' None" change_then_remove]
  note t2 = quantity_zero_removes_line [OF a(2), of ?e 3 "cart_row ''c'' None" change_then_remove]
  have d: "reduced_motion cart3" "\<not> reduced_motion cart3_animated" "has_cartTotal cart3"
    "effects cart3 = []" "attached (cart_row ''c'' None)"
    "request_for cart3 ''main'' 3 0 = Fetch ''/cart/change.js''
           \<lparr>body_line = 3, body_quantity = 0, body_sections = ''main,drawer'',
            body_sections_url = ''/cart''\<rparr>"
    by (simp_all add: cart3_def cart3_animated_def request_for_def sectionsToUpdate_def set_add_def
        cart_row_def)
  have u: "quantitySelectorUpdates cart3 None change_then_remove = state_of (onQuantityChange cart3 ?e)"
    using t1 c by simp
  have e1: "effects (state_of (onQuantityChange cart3 ?e)) =
        [CreateStartingMarker ''clear:user-action'', Shimmer CartTotal,
         Fetch ''/cart/change.js''
           \<lparr>body_line = 3, body_quantity = 0, body_sections = ''main,drawer'',
            body_sections_url = ''/cart''\<rparr>]"
    using t1 [THEN conjunct2, THEN conjunct1] by (simp add: d)
  have r1: "\<not> attached (cartItemRows (state_of (onQuantityChange cart3 ?e)) ! 2)"
    using t1 [THEN conjunct2, THEN conjunct2, THEN conjunct1] b(1)
    by (simp add: d removal_started_def)
  have r2: "removal_started False (cartItemRows (state_of (onQuantityChange cart3_animated ?e)) ! 2)
     \<and> attached (cartItemRows (state_of (onQuantityChange cart3_animated ?e)) ! 2)"
    using t2 [THEN conjunct2, THEN conjunct2, THEN conjunct1] b(2)
    by (simp add: d)
  then have r3: "\<not> attached (animation_ended
        (cartItemRows (state_of (onQuantityChange cart3_animated ?e)) ! 2))"
    by (simp add: removal_started_def)
  show ?thesis
    using a(1) b(1) c e1 r1 r2 r3 by (simp add: u)
qed

text \<open>
  C2 as stated fails on a component without \<open>data-section-id\<close>: \<open>updateQuantity\<close> throws
  before the request, the throw leaves \<open>onLineItemRemove\<close>, and the row stays. It also
  fails for a quantity-0 event that another event follows within 300 ms: the debounced
  listener drops it, no request with quantity 0 is issued and the row of its line stays.
\<close>

theorem quantity_zero_not_removed_counterexample:
  "truthy_number (Some 1) \<and> truthy_number (Some 3)
   \<and> thrown (onQuantityChange cart3_no_section \<lparr>ev_quantity = 0, ev_cartLine = Some 1\<rparr>)
        = Some (Error ''Section id missing'')
   \<and> filter is_fetch (effects (state_of (onQuantityChange cart3_no_section
        \<lparr>ev_quantity = 0, ev_cartLine = Some 1\<rparr>))) = []
   \<and> attached (cartItemRows (state_of (onQuantityChange cart3_no_section
        \<lparr>ev_quantity = 0, ev_cartLine = Some 1\<rparr>)) ! 0)
   \<and> sectionId cart3 = Inr ''main''
   \<and> remove_then_change ! 0 = (0, \<lparr>ev_quantity = 0, ev_cartLine = Some 3\<rparr>)
   \<and> filter is_fetch (effects (quantitySelectorUpdates cart3 None remove_then_change)) =
        [Fetch ''/cart/change.js''
           \<lparr>body_line = 1, body_quantity = 2, body_sections = ''main,drawer'',
            body_sections_url = ''/cart''\<rparr>]
   \<and> attached (cartItemRows (quantitySelectorUpdates cart3 None remove_then_change) ! 2)"
  by (simp add: remove_defs cart3_defs cart3_no_section_def truthy_number_def is_fetch_def
      remove_then_change_def timer_due_def debounce_def)

subsection \<open>Nested lines\<close>

text \<open>
  C10, as the code has it. On a component that has a section id, when there is a row at
  index \<open>line - 1\<close>, \<open>onLineItemRemove\<close> removes that row and every cart item row whose
  \<open>data-parent-key\<close> equals that row's \<open>data-key\<close> (at once under reduced motion, by the
  removal animation otherwise), and leaves every other row as it was.
\<close>

theorem line_removal_removes_nested_rows:
  assumes "sectionId s = Inr sid" "js_index (cartItemRows s) (line - 1) = Some r"
  shows "length (cartItemRows (state_of (onLineItemRemove s line))) = length (cartItemRows s)
    \<and> (\<forall>j. j < length (cartItemRows s) \<longrightarrow>
          (if j = nat (line - 1) \<or> data_parent_key (cartItemRows s ! j) = data_key r
           then removal_started (reduced_motion s) (cartItemRows (state_of (onLineItemRemove s line)) ! j)
           else cartItemRows (state_of (onLineItemRemove s line)) ! j = cartItemRows s ! j))"
proof -
  let ?rows = "cartItemRows s"
  let ?i = "nat (line - 1)"
  have r: "?rows ! ?i = r" "?i < length ?rows"
    using assms(2) by (auto simp add: js_index_def split: if_splits)
  have rows': "cartItemRows (state_of (onLineItemRemove s line)) =
           remove_rows (reduced_motion s) ?rows (rowsToRemove ?rows ?i)"
    using onLineItemRemove_rows [OF assms] by simp
  show ?thesis
  proof (intro conjI allI impI)
    show "length (cartItemRows (state_of (onLineItemRemove s line))) = length ?rows"
      by (simp add: rows' remove_rows_length)
  next
    fix j assume j: "j < length ?rows"
    let ?n = "count_list (rowsToRemove ?rows ?i) j"
    have n: "0 < ?n \<longleftrightarrow> (j = ?i \<or> data_parent_key (?rows ! j) = data_key r)"
      using count_rowsToRemove [OF j, of ?i] r by simp
    have nth: "cartItemRows (state_of (onLineItemRemove s line)) ! j
                 = (remove_row (reduced_motion s) ^^ ?n) (?rows ! j)"
      by (simp add: rows' remove_rows_nth [OF j])
    show "if j = ?i \<or> data_parent_key (?rows ! j) = data_key r
           then removal_started (reduced_motion s) (cartItemRows (state_of (onLineItemRemove s line)) ! j)
           else cartItemRows (state_of (onLineItemRemove s line)) ! j = ?rows ! j"
    proof (cases "0 < ?n")
      case True
      then show ?thesis
        using n by (simp add: nth removal_started_funpow)
    next
      case False
      then have "?n = 0" by simp
      then show ?thesis
        using n False by (simp add: nth)
    qed
  qed
qed

theorem line_removal_witness:
  "sectionId cart3 = Inr ''main''
   \<and> js_index (cartItemRows cart3) (1 - 1) = Some (cart_row ''a'' None)
   \<and> length (cartItemRows (state_of (onLineItemRemove cart3 1))) = 3
   \<and> \<not> attached (cartItemRows (state_of (onLineItemRemove cart3 1)) ! 0)
   \<and> \<not> attached (cartItemRows (state_of (onLineItemRemove cart3 1)) ! 1)
   \<and> cartItemRows (state_of (onLineItemRemove cart3 1)) ! 2 = cart_row ''c'' None"
proof -
  have a: "sectionId cart3 = Inr ''main''"
    by (simp add: sectionId_def cart3_def)
  have b: "js_index (cartItemRows cart3) (1 - 1) = Some (cart_row ''a'' None)"
    by (simp add: js_index_def cart3_def)
  note t = line_removal_removes_nested_rows [OF a b]
  have l: "length (cartItemRows cart3) = 3" "reduced_motion cart3"
    "cartItemRows cart3 ! 0 = cart_row ''a'' None"
    "cartItemRows cart3 ! 1 = cart_row ''b'' (Some ''a'')"
    "cartItemRows cart3 ! 2 = cart_row ''c'' None"
    by (simp_all add: cart3_def)
  have t0: "\<not> attached (cartItemRows (state_of (onLineItemRemove cart3 1)) ! 0)"
    using t [THEN conjunct2, THEN spec, of 0] by (simp add: l removal_started_def)
  have t1: "\<not> attached (cartItemRows (state_of (onLineItemRemove cart3 1)) ! 1)"
    using t [THEN conjunct2, THEN spec, of 1]
    by (simp add: l removal_started_def cart_row_def del: One_nat_def)
  have t2: "cartItemRows (state_of (onLineItemRemove cart3 1)) ! 2 = cart_row ''c'' None"
    using t [THEN conjunct2, THEN spec, of 2] by (simp add: l cart_row_def)
  have t3: "length (cartItemRows (state_of (onLineItemRemove cart3 1))) = 3"
    using t [THEN conjunct1] by (simp add: l)
  show ?thesis using a b t0 t1 t2 t3 by simp
qed

text \<open>
  C10 as stated fails on a component without \<open>data-section-id\<close>: the throw of
  \<open>updateQuantity\<close> comes before the rows are looked at, and neither the row of the line
  nor its nested row is removed.
\<close>

theorem line_removal_without_section_id_counterexample:
  "js_index (cartItemRows cart3_no_section) (1 - 1) = Some (cart_row ''a'' None)
   \<and> data_parent_key (cartItemRows cart3_no_section ! 1) = data_key (cart_row ''a'' None)
   \<and> thrown (onLineItemRemove cart3_no_section 1) = Some (Error ''Section id missing'')
   \<and> attached (cartItemRows (state_of (onLineItemRemove cart3_no_section 1)) ! 0)
   \<and> attached (cartItemRows (state_of (onLineItemRemove cart3_no_section 1)) ! 1)
   \<and> on_animation_end (cartItemRows (state_of (onLineItemRemove cart3_no_section 1)) ! 0) = 0"
  by (simp add: remove_defs cart3_defs cart3_no_section_def)

lemma js_index_one_based:
  "1 \<le> n \<Longrightarrow> n \<le> int (length xs) \<Longrightarrow> js_index xs (n - 1) = Some (xs ! (nat n - 1))"
  by (auto simp add: js_index_def nat_diff_distrib)

lemma onQuantityChange_change_effects:
  assumes "sectionId s = Inr sid" "q \<noteq> 0" "n \<noteq> 0"
    "js_index (cartItemRows s) (n - 1) = Some r"
  shows "effects (state_of (onQuantityChange s \<lparr>ev_quantity = q, ev_cartLine = Some n\<rparr>)) =
           effects s @ [CreateStartingMarker ''change:user-action'']
             @ (if has_cartTotal s then [Shimmer CartTotal] else [])
             @ [request_for s sid n q]
             @ (if has_text_component r then [Shimmer (RowText (nat (n - 1)))] else [])"
proof -
  let ?c = "\<lparr>cfg_line = n, cfg_quantity = q, cfg_action = ''change''\<rparr>"
  obtain s1 where s1: "updateQuantity s ?c = Returned s1"
    using updateQuantity_returns [OF assms(1)] by blast
  have f: "cartItemRows s1 = cartItemRows s"
    using updateQuantity_frame [OF s1] by simp
  have e: "effects s1 = effects s @ [CreateStartingMarker ''change:user-action'']
             @ (if has_cartTotal s then [Shimmer CartTotal] else [])
             @ [request_for s sid n q]"
    using updateQuantity_effects [OF assms(1), of ?c] s1 by (simp add: state_of_def)
  show ?thesis
    using assms(2,3,4) by (simp add: onQuantityChange_def s1 f e state_of_def emit_def)
qed

lemma handleCartError_selectors:
  assumes "js_index (quantitySelectors s) (n - 1) = Some sel" "selector_input sel = Some inp"
  shows "quantitySelectors (state_of (handleCartError s n p)) =
           (quantitySelectors s)[nat (n - 1) :=
              sel\<lparr>selector_input := Some (inp\<lparr>input_value := default_value inp\<rparr>)\<rparr>]"
  using assms
  by (simp add: handleCartError_def Let_def state_of_def split: option.splits)

lemma updateQuantity_not_thrown:
  "thrown (updateQuantity s config) = None \<Longrightarrow> \<exists>sid. sectionId s = Inr sid"
  by (cases "sectionId s")
     (simp_all add: updateQuantity_def Let_def thrown_def sectionId_def disableCartItems_def emit_def)

lemma onLineItemRemove_not_thrown:
  "thrown (onLineItemRemove s line) = None \<Longrightarrow> \<exists>sid. sectionId s = Inr sid"
  using updateQuantity_not_thrown [of s "\<lparr>cfg_line = line, cfg_quantity = 0, cfg_action = ''clear''\<rparr>"]
  by (simp add: onLineItemRemove_def thrown_def split: result.splits option.splits)

lemma onQuantityChange_not_thrown:
  "q \<noteq> 0 \<Longrightarrow> n \<noteq> 0 \<Longrightarrow>
   thrown (onQuantityChange s \<lparr>ev_quantity = q, ev_cartLine = Some n\<rparr>) = None \<Longrightarrow>
   \<exists>sid. sectionId s = Inr sid"
  using updateQuantity_not_thrown [of s "\<lparr>cfg_line = n, cfg_quantity = q, cfg_action = ''change''\<rparr>"]
  by (simp add: onQuantityChange_def thrown_def split: result.splits option.splits if_splits)

subsection \<open>Lines count from 1\<close>

text \<open>
  C7. Cart lines are 1-indexed: for a line number \<open>n\<close> between 1 and the number of rows,
  a quantity change that is handled (the handler does not throw) shimmers, after the
  calls of \<open>updateQuantity\<close>, the text component of the row at zero-based index \<open>n - 1\<close>
  of \<open>cartItemRows\<close>; a line removal that is handled starts the removal of the row at
  index \<open>n - 1\<close>; and a cart error reverts the input of the selector at index \<open>n - 1\<close>
  of \<open>quantitySelectors\<close> and of no other selector.
\<close>

theorem lines_are_one_indexed:
  assumes "1 \<le> n" "n \<le> int (length (cartItemRows s))"
  shows "(q \<noteq> 0 \<and> thrown (onQuantityChange s \<lparr>ev_quantity = q, ev_cartLine = Some n\<rparr>) = None \<longrightarrow>
          effects (state_of (onQuantityChange s \<lparr>ev_quantity = q, ev_cartLine = Some n\<rparr>)) =
            effects (state_of (updateQuantity s
                \<lparr>cfg_line = n, cfg_quantity = q, cfg_action = ''change''\<rparr>))
              @ (if has_text_component (cartItemRows s ! (nat n - 1))
                 then [Shimmer (RowText (nat n - 1))] else []))
    \<and> (thrown (onLineItemRemove s n) = None \<longrightarrow>
          removal_started (reduced_motion s)
            (cartItemRows (state_of (onLineItemRemove s n)) ! (nat n - 1)))
    \<and> (n \<le> int (length (quantitySelectors s))
         \<and> selector_input (quantitySelectors s ! (nat n - 1)) = Some inp \<longrightarrow>
        quantitySelectors (state_of (handleCartError s n p)) =
          (quantitySelectors s)[nat n - 1 :=
             (quantitySelectors s ! (nat n - 1))
               \<lparr>selector_input := Some (inp\<lparr>input_value := default_value inp\<rparr>)\<rparr>])"
proof -
  have i: "nat (n - 1) = nat n - 1"
    by (simp add: nat_diff_distrib)
  have r: "js_index (cartItemRows s) (n - 1) = Some (cartItemRows s ! (nat n - 1))"
    using assms by (rule js_index_one_based)
  have n0: "n \<noteq> 0" using assms(1) by simp
  show ?thesis
  proof (intro conjI impI)
    assume a: "q \<noteq> 0 \<and> thrown (onQuantityChange s \<lparr>ev_quantity = q, ev_cartLine = Some n\<rparr>) = None"
    then obtain sid where sid: "sectionId s = Inr sid"
      using onQuantityChange_not_thrown [OF _ n0] by blast
    from a have q: "q \<noteq> 0" by simp
    from onQuantityChange_change_effects [OF sid q n0 r]
      updateQuantity_effects [OF sid, of "\<lparr>cfg_line = n, cfg_quantity = q, cfg_action = ''change''\<rparr>"]
    show "effects (state_of (onQuantityChange s \<lparr>ev_quantity = q, ev_cartLine = Some n\<rparr>)) =
            effects (state_of (updateQuantity s
                \<lparr>cfg_line = n, cfg_quantity = q, cfg_action = ''change''\<rparr>))
              @ (if has_text_component (cartItemRows s ! (nat n - 1))
                 then [Shimmer (RowText (nat n - 1))] else [])"
      by (simp add: i)
  next
    assume "thrown (onLineItemRemove s n) = None"
    then obtain sid where sid: "sectionId s = Inr sid"
      using onLineItemRemove_not_thrown by blast
    from line_row_removal_started [OF sid r]
    show "removal_started (reduced_motion s)
          (cartItemRows (state_of (onLineItemRemove s n)) ! (nat n - 1))"
      by (simp add: i)
  next
    assume a: "n \<le> int (length (quantitySelectors s))
         \<and> selector_input (quantitySelectors s ! (nat n - 1)) = Some inp"
    then have "js_index (quantitySelectors s) (n - 1) = Some (quantitySelectors s ! (nat n - 1))"
      using assms(1) by (simp add: js_index_one_based)
    from handleCartError_selectors [OF this, of inp p] a
    show "quantitySelectors (state_of (handleCartError s n p)) =
          (quantitySelectors s)[nat n - 1 :=
             (quantitySelectors s ! (nat n - 1))
               \<lparr>selector_input := Some (inp\<lparr>input_value := default_value inp\<rparr>)\<rparr>]"
      by (simp add: i)
  qed
qed

theorem lines_are_one_indexed_witness:
  "(1::int) \<le> 3 \<and> (3::int) \<le> int (length (cartItemRows cart3))
   \<and> thrown (onQuantityChange cart3 \<lparr>ev_quantity = 2, ev_cartLine = Some 3\<rparr>) = None
   \<and> thrown (onLineItemRemove cart3 3) = None
   \<and> effects (state_of (onQuantityChange cart3 \<lparr>ev_quantity = 2, ev_cartLine = Some 3\<rparr>)) =
        [CreateStartingMarker ''change:user-action'', Shimmer CartTotal,
         request_for cart3 ''main'' 3 2, Shimmer (RowText 2)]
   \<and> \<not> attached (cartItemRows (state_of (onLineItemRemove cart3 3)) ! 2)
   \<and> quantitySelectors (state_of (handleCartError cart3 3 sold_out)) =
        [cart_selector ''5'' ''2'', cart_selector ''1'' ''1'', cart_selector ''3'' ''3'']"
proof -
  have a: "sectionId cart3 = Inr ''main''"
    by (simp add: sectionId_def cart3_def)
  have b: "(1::int) \<le> 3" "(3::int) \<le> int (length (cartItemRows cart3))"
    by (simp_all add: cart3_def)
  have c: "thrown (onQuantityChange cart3 \<lparr>ev_quantity = 2, ev_cartLine = Some 3\<rparr>) = None"
    "thrown (onLineItemRemove cart3 3) = None"
    by (simp_all add: remove_defs cart3_defs)
  have u: "effects (state_of (updateQuantity cart3
              \<lparr>cfg_line = 3, cfg_quantity = 2, cfg_action = ''change''\<rparr>)) =
        [CreateStartingMarker ''change:user-action'', Shimmer CartTotal,
         request_for cart3 ''main'' 3 2]"
    using updateQuantity_effects [OF a, of "\<lparr>cfg_line = 3, cfg_quantity = 2, cfg_action = ''change''\<rparr>"]
    by (simp add: cart3_def)
  note t = lines_are_one_indexed [OF b, of 2 "\<lparr>input_value = ''4'', default_value = ''3''\<rparr>" sold_out]
  have l: "nat 3 - 1 = (2::nat)" "reduced_motion cart3"
    "has_text_component (cartItemRows cart3 ! 2)"
    "int (length (quantitySelectors cart3)) = 3"
    "quantitySelectors cart3 ! 2 = cart_selector ''4'' ''3''"
    "quantitySelectors cart3 = [cart_selector ''5'' ''2'', cart_selector ''1'' ''1'', cart_selector ''4'' ''3'']"
    by (simp_all add: cart3_def cart_row_def)
  show ?thesis
    using t b c by (simp add: l u removal_started_def cart_selector_def)
qed

lemma onQuantityChange_fetches:
  "filter is_fetch (effects (state_of (onQuantityChange s event))) =
     filter is_fetch (effects s)
       @ (case ev_cartLine event of
            None \<Rightarrow> []
          | Some line \<Rightarrow>
              if line = 0 then []
              else (case sectionId s of
                      Inl e \<Rightarrow> []
                    | Inr sid \<Rightarrow> [request_for s sid line (ev_quantity event)]))"
  by (auto simp add: onQuantityChange_def onLineItemRemove_def updateQuantity_def Let_def
      sectionId_def disableCartItems_def emit_def state_of_def request_for_def is_fetch_def
      split: option.splits sum.splits if_splits)

subsection \<open>Debouncing\<close>

text \<open>
  C6. The listener of the quantity-selector update event is the 300 ms debounced wrapper
  of \<open>#onQuantityChange\<close>: a burst of events, each less than 300 ms after the one before,
  leaves the component as one call of \<open>#onQuantityChange\<close> with the last event of the
  burst does, so at most one update request is issued, and it is the request for the
  line and quantity of the last event.
\<close>

theorem burst_issues_one_request:
  assumes "events \<noteq> []" "burst 300 events"
  shows "quantitySelectorUpdates s None events = state_of (onQuantityChange s (snd (last events)))
    \<and> length (filter is_fetch (effects (quantitySelectorUpdates s None events)))
        \<le> Suc (length (filter is_fetch (effects s)))
    \<and> (sectionId s = Inr sid \<and> ev_cartLine (snd (last events)) = Some line \<and> line \<noteq> 0 \<longrightarrow>
         filter is_fetch (effects (quantitySelectorUpdates s None events))
           = filter is_fetch (effects s) @ [request_for s sid line (ev_quantity (snd (last events)))])"
proof -
  obtain now event rest where e: "events = (now, event) # rest"
    using assms(1) by (cases events) auto
  have u: "quantitySelectorUpdates s None events = state_of (onQuantityChange s (snd (last events)))"
    using burst_updates [of now event rest None s] assms(2) by (simp add: e)
  show ?thesis
    unfolding u
    by (simp add: onQuantityChange_fetches split: option.splits sum.splits)
qed

theorem burst_issues_one_request_witness:
  "three_clicks \<noteq> [] \<and> burst 300 three_clicks
   \<and> filter is_fetch (effects (quantitySelectorUpdates cart3 None three_clicks))
       = [Fetch ''/cart/change.js''
           \<lparr>body_line = 1, body_quantity = 4, body_sections = ''main,drawer'',
            body_sections_url = ''/cart''\<rparr>]"
proof -
  have a: "three_clicks \<noteq> []" "burst 300 three_clicks"
    by (simp_all add: three_clicks_def)
  have b: "sectionId cart3 = Inr ''main''" "effects cart3 = []"
    "snd (last three_clicks) = \<lparr>ev_quantity = 4, ev_cartLine = Some 1\<rparr>"
    "request_for cart3 ''main'' 1 4 = Fetch ''/cart/change.js''
           \<lparr>body_line = 1, body_quantity = 4, body_sections = ''main,drawer'',
            body_sections_url = ''/cart''\<rparr>"
    by (simp_all add: sectionId_def cart3_def three_clicks_def request_for_def
        sectionsToUpdate_def set_add_def)
  show ?thesis
    using burst_issues_one_request [OF a, of cart3 "''main''" 1, THEN conjunct2, THEN conjunct2] a
    by (simp add: b)
qed

end
